theory Spec2Isabelle
  imports Main "HOL-Library.AList"
begin

section \<open>The clade ledger pipeline (auriclass\_subgrouping.py)\<close>

text \<open>
  A shallow embedding of \<^verbatim>\<open>Python_Data_File_Processing/auriclass_subgrouping.py\<close>.

  Modelling decisions.
  \<^item> A Python \<^verbatim>\<open>str\<close> is a \<^typ>\<open>string\<close>; a \<^typ>\<open>char\<close> stands for a code point
    below 256.
  \<^item> The file system is a map from path to the text of the regular file at that path.
    Writing is the POSIX text mode (a line feed is written as it is); reading is Python's
    universal-newline mode (\<open>py_lines\<close>). File operations succeed.
  \<^item> \<^verbatim>\<open>csv.reader\<close> is library code: the loaders and \<open>parse_report\<close> take the rows it
    yields, each row a list of fields, an empty line being the empty row.
  \<^item> The external classifier is a parameter: for each invocation it gives the exit status,
    the captured error text and the rows of \<^verbatim>\<open>report.tsv\<close> found afterwards, if any.
  \<^item> \<^verbatim>\<open>print\<close> appends a message to the \<open>stdout\<close> field of the state; a message is a
    constructor holding the values interpolated into the source's f-string.
  \<^item> Within these inputs the script raises nothing: the only exception it can meet, the
    \<^verbatim>\<open>ValueError\<close> of a row that does not unpack, is caught at lines 95 and 110 and is the
    second branch of the loaders. Exceptions of the operating system (a file that cannot
    be opened, a classifier that cannot be started) are outside the model.
\<close>

subsection \<open>Text primitives of the Python library\<close>

abbreviation TAB :: char where "TAB \<equiv> CHR 0x09"
abbreviation LF :: char where "LF \<equiv> CHR 0x0A"
abbreviation CR :: char where "CR \<equiv> CHR 0x0D"

text \<open>\<^verbatim>\<open>str.isspace\<close> on one character (code points below 256).\<close>

definition py_isspace :: "char \<Rightarrow> bool" where
  "py_isspace c \<longleftrightarrow>
     c \<in> set [CHR 0x09, CHR 0x0A, CHR 0x0B, CHR 0x0C, CHR 0x0D,
              CHR 0x1C, CHR 0x1D, CHR 0x1E, CHR 0x1F, CHR 0x20, CHR 0x85, CHR 0xA0]"

text \<open>\<^verbatim>\<open>s.strip()\<close>: leading and trailing whitespace removed.\<close>

definition py_strip :: "string \<Rightarrow> string" where
  "py_strip s = rev (dropWhile py_isspace (rev (dropWhile py_isspace s)))"

text \<open>\<^verbatim>\<open>s.split(sep)\<close> for a one-character separator: never the empty list.\<close>

fun py_split :: "char \<Rightarrow> string \<Rightarrow> string list" where
  "py_split sep [] = [[]]"
| "py_split sep (c # cs) =
     (if c = sep then [] # py_split sep cs
      else (case py_split sep cs of
              [] \<Rightarrow> [[c]]
            | w # ws \<Rightarrow> (c # w) # ws))"

text \<open>\<^verbatim>\<open>s.startswith("#")\<close>.\<close>

definition startswith_hash :: "string \<Rightarrow> bool" where
  "startswith_hash s = (case s of [] \<Rightarrow> False | c # _ \<Rightarrow> c = CHR ''#'')"

text \<open>\<^verbatim>\<open>s.replace(" ", "_")\<close>.\<close>

definition replace_space :: "string \<Rightarrow> string" where
  "replace_space s = map (\<lambda>c. if c = CHR '' '' then CHR ''_'' else c) s"

text \<open>
  \<^verbatim>\<open>for l in f\<close> on a file opened with \<^verbatim>\<open>open(filename, "r")\<close>: the lines of the text, each
  with its terminator, where a line feed, a carriage return and the pair of them all end
  a line and are read as one line feed. \<open>after_cr\<close> says that the previous character was
  a carriage return (the line it ended is already out, so a line feed that follows
  is dropped), \<open>cur\<close> is the line read so far.
\<close>

fun py_lines_from :: "bool \<Rightarrow> string \<Rightarrow> string \<Rightarrow> string list" where
  "py_lines_from after_cr cur [] = (if cur = [] then [] else [cur])"
| "py_lines_from after_cr cur (c # cs) =
     (if c = LF then
        (if after_cr then py_lines_from False [] cs
         else (cur @ [LF]) # py_lines_from False [] cs)
      else if c = CR then (cur @ [LF]) # py_lines_from True [] cs
      else py_lines_from False (cur @ [c]) cs)"

definition py_lines :: "string \<Rightarrow> string list" where
  "py_lines content = py_lines_from False [] content"

text \<open>\<^verbatim>\<open>os.path.join(a, b)\<close> on POSIX.\<close>

definition path_join :: "string \<Rightarrow> string \<Rightarrow> string" where
  "path_join a b =
     (if b \<noteq> [] \<and> hd b = CHR ''/'' then b
      else if a = [] \<or> last a = CHR ''/'' then a @ b
      else a @ ''/'' @ b)"

subsection \<open>State of a run\<close>

datatype msg =
    AlreadyExists string string                \<comment> \<open>isolate\_id, filename: "... already exists in ... Skipping."\<close>
  | SkippingMalformedRow string "string list"  \<comment> \<open>table, row: "Skipping malformed row in ..."\<close>
  | RunningAuriclass string "string list"      \<comment> \<open>isolate\_id, cmd\<close>
  | ErrorRunningAuriclass string string        \<comment> \<open>isolate\_id, stderr\<close>
  | ReportNotFound string string               \<comment> \<open>report\_path, isolate\_id\<close>
  | NoHeaderFound string                       \<comment> \<open>report\_path\<close>
  | NoExpectedColumns string                   \<comment> \<open>report\_path\<close>
  | ExtractedClade string                      \<comment> \<open>clade\<close>
  | ProcessingSample string                    \<comment> \<open>isolate\_id\<close>
  | SkippingAuriclassError string              \<comment> \<open>isolate\_id\<close>
  | SkippingNoClade string                     \<comment> \<open>isolate\_id\<close>
  | WarningCladeNotAllowed string string       \<comment> \<open>clade, isolate\_id\<close>
  | WarningNoContigs string                    \<comment> \<open>isolate\_id\<close>
  | AssignedSample string string string string string
      \<comment> \<open>isolate\_id, clade, reads file, contigs file, summary file\<close>
  | PipelineCompleted

record state =
  files :: "string \<rightharpoonup> string"
  file_written_ids :: "string \<rightharpoonup> string set"
  stdout :: "msg list"

definition print :: "msg \<Rightarrow> state \<Rightarrow> state" where
  "print m st = st\<lparr>stdout := stdout st @ [m]\<rparr>"

subsection \<open>Ledger store: \<open>append_line_if_not_exists\<close> (lines 47--76)\<close>

text \<open>The loop of lines 58--66 over the lines of an existing file.\<close>

fun read_existing_ids :: "string option \<Rightarrow> string list \<Rightarrow> string set \<Rightarrow> string set" where
  "read_existing_ids header_line [] existing_ids = existing_ids"
| "read_existing_ids header_line (l # ls) existing_ids =
     (if py_strip l = [] then read_existing_ids header_line ls existing_ids
      else if (case header_line of None \<Rightarrow> False | Some h \<Rightarrow> py_strip l = py_strip h)
        then read_existing_ids header_line ls existing_ids
      else read_existing_ids header_line ls
             (insert (py_strip (hd (py_split TAB l))) existing_ids))"

text \<open>Lines 54--67: the index of a file is built when the file is first referenced.\<close>

definition load_file_ids :: "state \<Rightarrow> string \<Rightarrow> string option \<Rightarrow> state" where
  "load_file_ids st filename header_line =
     (case file_written_ids st filename of
        Some _ \<Rightarrow> st
      | None \<Rightarrow>
          st\<lparr>file_written_ids := (file_written_ids st)(filename \<mapsto>
                (case files st filename of
                   None \<Rightarrow> {}
                 | Some content \<Rightarrow> read_existing_ids header_line (py_lines content) {}))\<rparr>)"

text \<open>The set \<^verbatim>\<open>file_written_ids[filename]\<close>; the key is present where the source reads it.\<close>

definition ids_of :: "state \<Rightarrow> string \<Rightarrow> string set" where
  "ids_of st filename = (case file_written_ids st filename of None \<Rightarrow> {} | Some s \<Rightarrow> s)"

text \<open>\<^verbatim>\<open>open(filename, "a").write(line)\<close>: the file is created when it is absent.\<close>

definition append_text :: "(string \<rightharpoonup> string) \<Rightarrow> string \<Rightarrow> string \<Rightarrow> (string \<rightharpoonup> string)" where
  "append_text fs filename line =
     fs(filename \<mapsto> (case fs filename of None \<Rightarrow> [] | Some content \<Rightarrow> content) @ line)"

definition append_line_if_not_exists ::
  "state \<Rightarrow> string \<Rightarrow> string \<Rightarrow> string \<Rightarrow> string option \<Rightarrow> bool \<times> state" where
  "append_line_if_not_exists st filename line isolate_id header_line =
     (let st1 = load_file_ids st filename header_line in
      if isolate_id \<in> ids_of st1 filename
      then (False, print (AlreadyExists isolate_id filename) st1)
      else (True, st1\<lparr>files := append_text (files st1) filename line,
                      file_written_ids :=
                        (file_written_ids st1)(filename \<mapsto> insert isolate_id (ids_of st1 filename))\<rparr>))"

subsection \<open>Inputs of a run\<close>

text \<open>
  What \<^verbatim>\<open>subprocess.run\<close> returns for one invocation of the classifier, with the rows of
  \<^verbatim>\<open>report.tsv\<close> in the working directory afterwards (\<open>None\<close>: no such file).
\<close>

record completed_process =
  returncode :: int
  stderr :: string
  report_tsv :: "string list list option"

text \<open>
  The command-line arguments, the rows \<^verbatim>\<open>csv.reader\<close> yields for the two tables, and the
  classifier: \<open>auriclass inp reads1_path isolate_id\<close> is the outcome of the invocation made
  for \<open>isolate_id\<close>.
\<close>

record inputs =
  READS_TAB :: string
  CONTIGS_TAB :: string
  CLADE_DIR :: string
  reads_rows :: "string list list"
  contigs_rows :: "string list list"
  auriclass :: "string \<Rightarrow> string \<Rightarrow> completed_process"

definition allowed_clades :: "string list" where
  "allowed_clades =
     [''Clade I'', ''Clade II'', ''Clade III'', ''Clade IV'', ''Clade V'', ''Clade VI'']"

definition SUMMARY_FILE :: "string \<Rightarrow> string" where
  "SUMMARY_FILE clade_dir = path_join clade_dir ''Clade_designations.tab''"

definition summary_header :: string where
  "summary_header = ''Isolate_ID'' @ [TAB] @ ''Clade''"

text \<open>Lines 79--82: the summary file is created with its header when it does not exist.\<close>

definition create_summary_file :: "string \<Rightarrow> state \<Rightarrow> state" where
  "create_summary_file clade_dir st =
     (case files st (SUMMARY_FILE clade_dir) of
        Some _ \<Rightarrow> st
      | None \<Rightarrow>
          st\<lparr>files := (files st)(SUMMARY_FILE clade_dir \<mapsto> summary_header @ [LF]),
             file_written_ids := (file_written_ids st)(SUMMARY_FILE clade_dir \<mapsto> {})\<rparr>)"

subsection \<open>Input loader (lines 86--113)\<close>

text \<open>
  A Python \<^verbatim>\<open>dict\<close> keeps its keys in insertion order and an assignment to a key already
  there keeps the key's place: an association list under \<open>AList.update\<close>.
\<close>

text \<open>\<^verbatim>\<open>not row or row[0].startswith("#")\<close>.\<close>

definition skipped_row :: "string list \<Rightarrow> bool" where
  "skipped_row row = (case row of [] \<Rightarrow> True | field0 # _ \<Rightarrow> startswith_hash field0)"

fun load_reads ::
  "string \<Rightarrow> string list list \<Rightarrow> (string \<times> string \<times> string) list \<Rightarrow> state
   \<Rightarrow> (string \<times> string \<times> string) list \<times> state" where
  "load_reads reads_tab [] reads_dict st = (reads_dict, st)"
| "load_reads reads_tab (row # rows) reads_dict st =
     (if skipped_row row then load_reads reads_tab rows reads_dict st
      else (case row of
              [isolate_id, reads1, reads2] \<Rightarrow>
                load_reads reads_tab rows (AList.update isolate_id (reads1, reads2) reads_dict) st
            | _ \<Rightarrow>
                load_reads reads_tab rows reads_dict
                  (print (SkippingMalformedRow reads_tab row) st)))"

fun load_contigs ::
  "string \<Rightarrow> string list list \<Rightarrow> (string \<times> string) list \<Rightarrow> state
   \<Rightarrow> (string \<times> string) list \<times> state" where
  "load_contigs contigs_tab [] contigs_dict st = (contigs_dict, st)"
| "load_contigs contigs_tab (row # rows) contigs_dict st =
     (if skipped_row row then load_contigs contigs_tab rows contigs_dict st
      else (case row of
              [isolate_id, contigs] \<Rightarrow>
                load_contigs contigs_tab rows (AList.update isolate_id contigs contigs_dict) st
            | _ \<Rightarrow>
                load_contigs contigs_tab rows contigs_dict
                  (print (SkippingMalformedRow contigs_tab row) st)))"

subsection \<open>Classifier adapter (lines 116--149)\<close>

definition run_auriclass ::
  "(string \<Rightarrow> string \<Rightarrow> completed_process) \<Rightarrow> string \<Rightarrow> string \<Rightarrow> state
   \<Rightarrow> string option \<times> state" where
  "run_auriclass tool reads1_path isolate_id st =
     (let cmd = [''auriclass'', reads1_path];
          st1 = print (RunningAuriclass isolate_id cmd) st;
          result = tool reads1_path isolate_id
      in if returncode result \<noteq> 0
         then (None, print (ErrorRunningAuriclass isolate_id (stderr result)) st1)
         else let report_path = ''report.tsv''
              in if report_tsv result = None
                 then (None, print (ReportNotFound report_path isolate_id) st1)
                 else (Some report_path, st1))"

text \<open>\<open>reader\<close> is the list of rows of the report file at \<open>report_path\<close>.\<close>

definition parse_report ::
  "string \<Rightarrow> string list list \<Rightarrow> state \<Rightarrow> string option \<times> state" where
  "parse_report report_path reader st =
     (case reader of
        [] \<Rightarrow> (None, print (NoHeaderFound report_path) st)
      | header # rest \<Rightarrow>
          (case rest of
             [] \<Rightarrow> (None, print (NoExpectedColumns report_path) st)
           | row # _ \<Rightarrow>
               if length row < 2
               then (None, print (NoExpectedColumns report_path) st)
               else let clade = py_strip (row ! 1)
                    in (Some clade, print (ExtractedClade clade) st)))"

subsection \<open>Orchestrator (lines 152--204)\<close>

text \<open>
  The body of the loop for one item of \<^verbatim>\<open>reads_dict.items()\<close>. The report that
  \<open>parse_report\<close> opens is the one the invocation left; it is opened only after
  \<open>run_auriclass\<close> has found it, so the \<open>None\<close> branch of the rows is never taken.
\<close>

definition process_sample ::
  "inputs \<Rightarrow> (string \<times> string) list \<Rightarrow> state \<Rightarrow> string \<times> string \<times> string \<Rightarrow> state" where
  "process_sample inp contigs_dict st0 item =
     (case item of (isolate_id, reads1, reads2) \<Rightarrow>
      let st1 = print (ProcessingSample isolate_id) st0;
          (report_path, st2) = run_auriclass (auriclass inp) reads1 isolate_id st1
      in case report_path of
           None \<Rightarrow> print (SkippingAuriclassError isolate_id) st2
         | Some rp \<Rightarrow>
             let reader = (case report_tsv (auriclass inp reads1 isolate_id) of
                             None \<Rightarrow> [] | Some rows \<Rightarrow> rows);
                 (clade_opt, st3) = parse_report rp reader st2
             in case clade_opt of
                  None \<Rightarrow> print (SkippingNoClade isolate_id) st3
                | Some clade \<Rightarrow>
                    if clade \<notin> set allowed_clades
                    then print (WarningCladeNotAllowed clade isolate_id) st3
                    else
                      let safe_clade = replace_space clade;
                          clade_reads_file = path_join (CLADE_DIR inp) (safe_clade @ ''.reads.tab'');
                          clade_contigs_file = path_join (CLADE_DIR inp) (safe_clade @ ''.contigs.tab'');
                          reads_line = isolate_id @ [TAB] @ reads1 @ [TAB] @ reads2 @ [LF];
                          contigs_path = map_of contigs_dict isolate_id;
                          contigs_line =
                            (case contigs_path of
                               None \<Rightarrow> None
                             | Some p \<Rightarrow> if p \<noteq> [] then Some (isolate_id @ [TAB] @ p @ [LF]) else None);
                          summary_line = isolate_id @ [TAB] @ clade @ [LF];
                          st4 = snd (append_line_if_not_exists st3 clade_reads_file reads_line isolate_id None);
                          st5 = (case contigs_line of
                                   Some cl \<Rightarrow>
                                     snd (append_line_if_not_exists st4 clade_contigs_file cl isolate_id None)
                                 | None \<Rightarrow> print (WarningNoContigs isolate_id) st4);
                          st6 = snd (append_line_if_not_exists st5 (SUMMARY_FILE (CLADE_DIR inp))
                                       summary_line isolate_id (Some summary_header))
                      in print (AssignedSample isolate_id clade clade_reads_file clade_contigs_file
                                  (SUMMARY_FILE (CLADE_DIR inp))) st6)"

text \<open>The \<^verbatim>\<open>for\<close> loop: one item after the other, there is no \<^verbatim>\<open>break\<close>.\<close>

fun process_samples ::
  "inputs \<Rightarrow> (string \<times> string) list \<Rightarrow> state \<Rightarrow> (string \<times> string \<times> string) list \<Rightarrow> state" where
  "process_samples inp contigs_dict st [] = st"
| "process_samples inp contigs_dict st (item # items) =
     process_samples inp contigs_dict (process_sample inp contigs_dict st item) items"

text \<open>
  The whole script, started on the file system \<open>fs\<close>: the index \<^verbatim>\<open>file_written_ids\<close> is
  empty at the start of every run.
\<close>

definition main :: "inputs \<Rightarrow> (string \<rightharpoonup> string) \<Rightarrow> state" where
  "main inp fs =
     (let st0 = \<lparr>files = fs, file_written_ids = Map.empty, stdout = []\<rparr>;
          st1 = create_summary_file (CLADE_DIR inp) st0;
          (reads_dict, st2) = load_reads (READS_TAB inp) (reads_rows inp) [] st1;
          (contigs_dict, st3) = load_contigs (CONTIGS_TAB inp) (contigs_rows inp) [] st2;
          st4 = process_samples inp contigs_dict st3 reads_dict
      in print PipelineCompleted st4)"

subsection \<open>Notions used to state the properties\<close>

text \<open>
  The identifiers \<open>append_line_if_not_exists\<close> finds recorded for \<open>filename\<close>: the set in
  the index if the file has been referenced in this run, else the set read from the file.
\<close>

definition known_ids :: "state \<Rightarrow> string \<Rightarrow> string option \<Rightarrow> string set" where
  "known_ids st filename header_line = ids_of (load_file_ids st filename header_line) filename"

text \<open>The text of a file, empty when the file is absent.\<close>

definition content_of :: "state \<Rightarrow> string \<Rightarrow> string" where
  "content_of st filename = (case files st filename of None \<Rightarrow> [] | Some content \<Rightarrow> content)"

text \<open>The state in which a run starts on an empty directory.\<close>

definition st_empty :: state where
  "st_empty = \<lparr>files = Map.empty, file_written_ids = Map.empty, stdout = []\<rparr>"

text \<open>
  A classifier for the examples: it fails on \<^verbatim>\<open>fail.fq\<close>, leaves no report on
  \<^verbatim>\<open>noreport.fq\<close>, reports a label outside the vocabulary on \<^verbatim>\<open>odd.fq\<close> and
  \<^verbatim>\<open>Clade II\<close> on every other file.
\<close>

definition ex_tool :: "string \<Rightarrow> string \<Rightarrow> completed_process" where
  "ex_tool reads1_path isolate_id =
     (if reads1_path = ''fail.fq''
        then \<lparr>returncode = 1, stderr = ''no reads'', report_tsv = None\<rparr>
      else if reads1_path = ''noreport.fq''
        then \<lparr>returncode = 0, stderr = [], report_tsv = None\<rparr>
      else if reads1_path = ''odd.fq''
        then \<lparr>returncode = 0, stderr = [],
              report_tsv = Some [[''Sample'', ''Clade''], [isolate_id, ''Clade VII'']]\<rparr>
      else \<lparr>returncode = 0, stderr = [],
             report_tsv = Some [[''Sample'', ''Clade''], [isolate_id, '' Clade II '']]\<rparr>)"

definition ex_inp :: inputs where
  "ex_inp = \<lparr>READS_TAB = ''reads.tab'', CONTIGS_TAB = ''contigs.tab'', CLADE_DIR = ''clades'',
             reads_rows = [[''S1'', ''r1.fq.gz'', ''r2.fq.gz'']],
             contigs_rows = [],
             auriclass = ex_tool\<rparr>"

text \<open>
  The two ledgers of the isolate \<^verbatim>\<open>S1\<close> in which its identifier is written with a
  leading blank, as they stand when a run starts.
\<close>

definition padded_ledgers :: state where
  "padded_ledgers =
     \<lparr>files = [''clades/Clade_II.reads.tab'' \<mapsto>
                 '' S1'' @ [TAB] @ ''r1.fq.gz'' @ [TAB] @ ''r2.fq.gz'' @ [LF],
               ''clades/Clade_designations.tab'' \<mapsto>
                 summary_header @ [LF] @ '' S1'' @ [TAB] @ ''Clade II'' @ [LF]],
      file_written_ids = Map.empty, stdout = []\<rparr>"

text \<open>The first tab-delimited field of a line: \<^verbatim>\<open>line.split("\t")[0]\<close>.\<close>

definition first_field :: "string \<Rightarrow> string" where
  "first_field l = hd (py_split TAB l)"

text \<open>
  How lines 59--66 read one line of a ledger: a line counts as a row unless it is blank
  once stripped or equals the header once both are stripped; the identifier of a row is
  its first tab-delimited field, stripped.
\<close>

definition data_line :: "string option \<Rightarrow> string \<Rightarrow> bool" where
  "data_line header_line l \<longleftrightarrow>
     py_strip l \<noteq> [] \<and>
     (case header_line of None \<Rightarrow> True | Some h \<Rightarrow> py_strip l \<noteq> py_strip h)"

definition line_id :: "string \<Rightarrow> string" where
  "line_id l = py_strip (hd (py_split TAB l))"

text \<open>The identifiers of the rows of a ledger text, in the order of the rows.\<close>

definition file_ids :: "string option \<Rightarrow> string \<Rightarrow> string list" where
  "file_ids header_line content =
     map line_id (filter (data_line header_line) (py_lines content))"

text \<open>
  A summary ledger whose header line carries a trailing blank and whose only row starts
  with a blank.
\<close>

definition padded_summary :: string where
  "padded_summary =
     summary_header @ [CHR '' '', LF] @ '' A'' @ [TAB] @ ''Clade I'' @ [LF]"

text \<open>The start of a second run: the summary ledger holds its header and one row.\<close>

definition rerun_state :: state where
  "rerun_state =
     \<lparr>files = [''clades/Clade_designations.tab'' \<mapsto>
                 summary_header @ [LF] @ ''S1'' @ [TAB] @ ''Clade II'' @ [LF]],
      file_written_ids = Map.empty, stdout = []\<rparr>"

text \<open>
  A reads table whose only identifier starts with a blank (the line
  \<^verbatim>\<open>" A<TAB>r1.fq.gz<TAB>r2.fq.gz"\<close>), an empty contigs table, a classifier that reports
  \<^verbatim>\<open>Clade II\<close>.
\<close>

definition padded_inp :: inputs where
  "padded_inp = \<lparr>READS_TAB = ''reads.tab'', CONTIGS_TAB = ''contigs.tab'', CLADE_DIR = ''clades'',
                reads_rows = [['' A'', ''r1.fq.gz'', ''r2.fq.gz'']],
                contigs_rows = [],
                auriclass = ex_tool\<rparr>"

text \<open>
  A sequence of calls of \<open>append_line_if_not_exists\<close> in one run; a call is the tuple of
  its arguments (filename, line, isolate\_id, header\_line).
\<close>

fun append_calls ::
  "state \<Rightarrow> (string \<times> string \<times> string \<times> string option) list \<Rightarrow> state" where
  "append_calls st [] = st"
| "append_calls st ((filename, line, isolate_id, header_line) # calls) =
     append_calls (snd (append_line_if_not_exists st filename line isolate_id header_line)) calls"

text \<open>
  The shape of the lines the orchestrator passes (lines 179--182): the identifier, a tab,
  the other fields, one line feed at the end and no other line break; the identifier is
  not empty and holds no tab and no leading or trailing whitespace.
\<close>

definition ledger_line :: "string \<Rightarrow> string \<Rightarrow> bool" where
  "ledger_line isolate_id line \<longleftrightarrow>
     isolate_id \<noteq> [] \<and> TAB \<notin> set isolate_id \<and> py_strip isolate_id = isolate_id \<and>
     take (Suc (length isolate_id)) line = isolate_id @ [TAB] \<and>
     last line = LF \<and> LF \<notin> set (butlast line) \<and> CR \<notin> set line"

text \<open>
  A call of \<open>append_line_if_not_exists\<close> that, when it is on \<open>filename\<close>, passes the header
  \<open>header_line\<close>, a line of that shape, and an identifier other than the first
  tab-delimited field of the header.
\<close>

definition ledger_call ::
  "string option \<Rightarrow> string \<Rightarrow> string \<times> string \<times> string \<times> string option \<Rightarrow> bool" where
  "ledger_call header_line filename c \<longleftrightarrow>
     (case c of (g, line, isolate_id, h) \<Rightarrow>
        g = filename \<longrightarrow>
          h = header_line \<and> ledger_line isolate_id line \<and>
          (case header_line of
             None \<Rightarrow> True
           | Some x \<Rightarrow> isolate_id \<noteq> first_field (py_strip x)))"

text \<open>
  A ledger text in which no two lines have the same first tab-delimited field and to
  which a line can be appended (it is empty or ends with a line feed), with an index
  that, if it is built, holds every identifier that the index reads from the text.
\<close>

definition ledger_inv :: "string option \<Rightarrow> string \<Rightarrow> state \<Rightarrow> bool" where
  "ledger_inv header_line filename st \<longleftrightarrow>
     (content_of st filename = [] \<or> last (content_of st filename) = LF) \<and>
     distinct (map first_field (py_lines (content_of st filename))) \<and>
     (case file_written_ids st filename of
        None \<Rightarrow> True
      | Some s \<Rightarrow> set (file_ids header_line (content_of st filename)) \<subseteq> s)"

text \<open>
  The calls the orchestrator makes on the reads ledger of a clade for the isolates
  \<^verbatim>\<open>"A<TAB>B"\<close> (an identifier that holds a tab) and \<^verbatim>\<open>"A"\<close>, and three calls for the isolates
  \<^verbatim>\<open>"S1"\<close>, \<^verbatim>\<open>"S1"\<close> again and \<^verbatim>\<open>"S2"\<close>.
\<close>

definition tab_calls :: "(string \<times> string \<times> string \<times> string option) list" where
  "tab_calls =
     [(''clades/Clade_I.reads.tab'',
       ''A'' @ [TAB] @ ''B'' @ [TAB] @ ''r1'' @ [TAB] @ ''r2'' @ [LF], ''A'' @ [TAB] @ ''B'', None),
      (''clades/Clade_I.reads.tab'',
       ''A'' @ [TAB] @ ''r3'' @ [TAB] @ ''r4'' @ [LF], ''A'', None)]"

definition plain_calls :: "(string \<times> string \<times> string \<times> string option) list" where
  "plain_calls =
     [(''clades/Clade_I.reads.tab'', ''S1'' @ [TAB] @ ''r1'' @ [TAB] @ ''r2'' @ [LF], ''S1'', None),
      (''clades/Clade_I.reads.tab'', ''S1'' @ [TAB] @ ''r1'' @ [TAB] @ ''r2'' @ [LF], ''S1'', None),
      (''clades/Clade_I.reads.tab'', ''S2'' @ [TAB] @ ''r3'' @ [TAB] @ ''r4'' @ [LF], ''S2'', None)]"

text \<open>The calls the orchestrator makes on the summary ledger for two isolates.\<close>

definition summary_calls :: "(string \<times> string \<times> string \<times> string option) list" where
  "summary_calls =
     [(''clades/Clade_designations.tab'', ''S1'' @ [TAB] @ ''Clade II'' @ [LF], ''S1'',
       Some summary_header),
      (''clades/Clade_designations.tab'', ''S2'' @ [TAB] @ ''Clade I'' @ [LF], ''S2'',
       Some summary_header)]"

section \<open>Properties\<close>

subsection \<open>Ledger store: the effect of one call\<close>

lemma files_load [simp]: "files (load_file_ids st f h) = files st"
  by (simp add: load_file_ids_def split: option.splits)

lemma stdout_load [simp]: "stdout (load_file_ids st f h) = stdout st"
  by (simp add: load_file_ids_def split: option.splits)

lemma index_load_other [simp]:
  "g \<noteq> f \<Longrightarrow> file_written_ids (load_file_ids st f h) g = file_written_ids st g"
  by (simp add: load_file_ids_def split: option.splits)

lemma index_load_same [simp]:
  "file_written_ids (load_file_ids st f h) f = Some (known_ids st f h)"
  by (simp add: load_file_ids_def known_ids_def ids_of_def split: option.splits)

lemma append_line_eq:
  "append_line_if_not_exists st f line i h =
     (if i \<in> known_ids st f h
      then (False, print (AlreadyExists i f) (load_file_ids st f h))
      else (True, (load_file_ids st f h)\<lparr>files := append_text (files st) f line,
                    file_written_ids :=
                      (file_written_ids (load_file_ids st f h))(f \<mapsto> insert i (known_ids st f h))\<rparr>))"
  by (simp add: append_line_if_not_exists_def Let_def known_ids_def)

lemma files_print [simp]: "files (print m st) = files st"
  by (simp add: print_def)

lemma index_print [simp]: "file_written_ids (print m st) = file_written_ids st"
  by (simp add: print_def)

lemma stdout_print [simp]: "stdout (print m st) = stdout st @ [m]"
  by (simp add: print_def)

lemma known_ids_print [simp]: "known_ids (print m st) f h = known_ids st f h"
  by (simp add: known_ids_def ids_of_def load_file_ids_def split: option.splits)

lemma files_append_same:
  "files (snd (append_line_if_not_exists st f line i h)) f =
     (if i \<in> known_ids st f h then files st f else Some (content_of st f @ line))"
  by (simp add: append_line_eq append_text_def content_of_def)

lemma files_append_other:
  "g \<noteq> f \<Longrightarrow> files (snd (append_line_if_not_exists st f line i h)) g = files st g"
  by (simp add: append_line_eq append_text_def)

lemma index_append_same:
  "file_written_ids (snd (append_line_if_not_exists st f line i h)) f =
     Some (insert i (known_ids st f h))"
  by (auto simp: append_line_eq insert_absorb)

lemma index_append_other:
  "g \<noteq> f \<Longrightarrow>
   file_written_ids (snd (append_line_if_not_exists st f line i h)) g = file_written_ids st g"
  by (simp add: append_line_eq)

lemma stdout_append:
  "stdout (snd (append_line_if_not_exists st f line i h)) =
     stdout st @ (if i \<in> known_ids st f h then [AlreadyExists i f] else [])"
  by (simp add: append_line_eq)

lemma known_ids_append_other:
  "g \<noteq> f \<Longrightarrow> known_ids (snd (append_line_if_not_exists st f line i h)) g h' = known_ids st g h'"
  by (simp add: known_ids_def ids_of_def load_file_ids_def files_append_other index_append_other
           split: option.splits)

text \<open>The three ledgers of a clade are three different paths.\<close>

lemma ledger_paths_distinct:
  assumes "clade \<in> set allowed_clades"
  shows "path_join d (replace_space clade @ ''.reads.tab'') \<noteq>
         path_join d (replace_space clade @ ''.contigs.tab'')"
    and "path_join d (replace_space clade @ ''.reads.tab'') \<noteq> SUMMARY_FILE d"
    and "path_join d (replace_space clade @ ''.contigs.tab'') \<noteq> SUMMARY_FILE d"
  using assms
  by (auto simp: allowed_clades_def replace_space_def SUMMARY_FILE_def path_join_def)

subsection \<open>Input loader\<close>

lemma load_reads_dict_wrong_count:
  "fst (load_reads t rows d st) = fst (load_reads t (filter (\<lambda>row. length row = 3) rows) d st')"
  by (induction rows arbitrary: d st st') (auto split: list.splits)

lemma load_contigs_dict_wrong_count:
  "fst (load_contigs t rows d st) = fst (load_contigs t (filter (\<lambda>row. length row = 2) rows) d st')"
  by (induction rows arbitrary: d st st') (auto split: list.splits)

lemma load_reads_state:
  "snd (load_reads t rows d st) =
     st\<lparr>stdout := stdout st @ map (SkippingMalformedRow t)
                       (filter (\<lambda>row. \<not> skipped_row row \<and> length row \<noteq> 3) rows)\<rparr>"
  by (induction rows arbitrary: d st) (auto simp: print_def split: list.splits)

lemma load_contigs_state:
  "snd (load_contigs t rows d st) =
     st\<lparr>stdout := stdout st @ map (SkippingMalformedRow t)
                       (filter (\<lambda>row. \<not> skipped_row row \<and> length row \<noteq> 2) rows)\<rparr>"
  by (induction rows arbitrary: d st) (auto simp: print_def split: list.splits)

lemma load_reads_filter_skipped:
  "load_reads t (filter (\<lambda>row. \<not> skipped_row row) rows) d st = load_reads t rows d st"
  by (induction rows arbitrary: d st) (auto split: list.splits)

lemma load_contigs_filter_skipped:
  "load_contigs t (filter (\<lambda>row. \<not> skipped_row row) rows) d st = load_contigs t rows d st"
  by (induction rows arbitrary: d st) (auto split: list.splits)

text \<open>
  Claim C7, as stated: a row whose first field is blank contributes no entry. The code
  tests \<^verbatim>\<open>not row\<close>, which holds of the row without fields only: a row of three fields
  whose first field is empty is loaded under the empty identifier.
\<close>

theorem blank_first_field_row_is_loaded:
  "map_of (fst (load_reads ''reads.tab'' [[[], ''r1.fq.gz'', ''r2.fq.gz'']] [] st_empty)) [] =
     Some (''r1.fq.gz'', ''r2.fq.gz'') \<and>
   map_of (fst (load_contigs ''contigs.tab'' [[[], ''c.fa'']] [] st_empty)) [] = Some ''c.fa'' \<and>
   fst (load_reads ''reads.tab'' [[[], ''r1.fq.gz'', ''r2.fq.gz'']] [] st_empty) \<noteq> [] \<and>
   fst (load_contigs ''contigs.tab'' [[[], ''c.fa'']] [] st_empty) \<noteq> []"
  by (simp add: skipped_row_def startswith_hash_def)

text \<open>
  Claim C7, amended: the loaders skip the rows without fields (the empty lines) and the
  rows whose first field starts with \<^verbatim>\<open>#\<close>. Such rows contribute nothing: the result of
  loading a table is the result of loading it with these rows removed, for the mapping
  and for the messages.
\<close>

theorem skipped_rows_contribute_nothing:
  "load_reads t rows d st = load_reads t (filter (\<lambda>row. \<not> skipped_row row) rows) d st \<and>
   load_contigs t' rows' d' st = load_contigs t' (filter (\<lambda>row. \<not> skipped_row row) rows') d' st \<and>
   (skipped_row row \<longleftrightarrow> row = [] \<or> (hd row \<noteq> [] \<and> hd (hd row) = CHR ''#''))"
proof -
  have "skipped_row row \<longleftrightarrow> row = [] \<or> (hd row \<noteq> [] \<and> hd (hd row) = CHR ''#'')"
    by (auto simp: skipped_row_def startswith_hash_def split: list.splits)
  then show ?thesis
    by (simp only: load_reads_filter_skipped load_contigs_filter_skipped simp_thms)
qed

theorem skipped_rows_contribute_nothing_witness:
  "load_reads ''reads.tab'' [[], [''#Isolate_ID'', ''reads1'', ''reads2''], [''S1'', ''a'', ''b'']] []
     st_empty =
   load_reads ''reads.tab'' [[''S1'', ''a'', ''b'']] [] st_empty \<and>
   skipped_row [] \<and> skipped_row [''#Isolate_ID'', ''reads1'', ''reads2''] \<and>
   \<not> skipped_row [''S1'', ''a'', ''b'']"
  using skipped_rows_contribute_nothing
    [of "''reads.tab''" "[[], [''#Isolate_ID'', ''reads1'', ''reads2''], [''S1'', ''a'', ''b'']]"
        "[]" st_empty "''contigs.tab''" "[]" "[]" "[]"]
  by (simp add: skipped_row_def startswith_hash_def)

text \<open>
  Claim C8, as stated: every row that lacks the expected number of fields is reported. A
  comment row of one field lacks it and is skipped without a message.
\<close>

theorem comment_row_not_reported:
  "length [''# two samples''] \<noteq> 3 \<and>
   load_reads ''reads.tab'' [[''# two samples'']] [] st_empty = ([], st_empty) \<and>
   length [''# two samples''] \<noteq> 2 \<and>
   load_contigs ''contigs.tab'' [[''# two samples'']] [] st_empty = ([], st_empty) \<and>
   stdout (snd (load_reads ''reads.tab'' [[''# two samples'']] [] st_empty)) = [] \<and>
   stdout (snd (load_contigs ''contigs.tab'' [[''# two samples'']] [] st_empty)) = []"
  by (simp add: skipped_row_def startswith_hash_def st_empty_def)

text \<open>
  Claim C8, amended: a row that lacks the expected number of fields (three for the reads
  table, two for the contigs table) adds nothing to the mapping, wherever it stands in
  the table, and the rows after it are loaded; the loader changes nothing but the
  messages, and the rows it reports are the rows lacking the expected number of fields
  that are neither empty nor comment rows, in the order of the table.
\<close>

theorem malformed_rows_reported_and_skipped:
  "fst (load_reads t rows d st) = fst (load_reads t (filter (\<lambda>row. length row = 3) rows) d st) \<and>
   snd (load_reads t rows d st) =
     st\<lparr>stdout := stdout st @ map (SkippingMalformedRow t)
                       (filter (\<lambda>row. \<not> skipped_row row \<and> length row \<noteq> 3) rows)\<rparr> \<and>
   fst (load_contigs t' rows' d' st) =
     fst (load_contigs t' (filter (\<lambda>row. length row = 2) rows') d' st) \<and>
   snd (load_contigs t' rows' d' st) =
     st\<lparr>stdout := stdout st @ map (SkippingMalformedRow t')
                       (filter (\<lambda>row. \<not> skipped_row row \<and> length row \<noteq> 2) rows')\<rparr>"
  using load_reads_dict_wrong_count [of t rows d st st]
        load_contigs_dict_wrong_count [of t' rows' d' st st]
  by (simp add: load_reads_state load_contigs_state)

theorem malformed_rows_reported_and_skipped_witness:
  "load_reads ''reads.tab'' [[''S1'', ''a''], [''# note''], [''S2'', ''a'', ''b'']] [] st_empty =
     ([(''S2'', ''a'', ''b'')],
      st_empty\<lparr>stdout := [SkippingMalformedRow ''reads.tab'' [''S1'', ''a'']]\<rparr>) \<and>
   load_contigs ''contigs.tab'' [[''S1'', ''a'', ''b''], [], [''S2'', ''c'']] [] st_empty =
     ([(''S2'', ''c'')],
      st_empty\<lparr>stdout := [SkippingMalformedRow ''contigs.tab'' [''S1'', ''a'', ''b'']]\<rparr>)"
  using malformed_rows_reported_and_skipped
    [of "''reads.tab''" "[[''S1'', ''a''], [''# note''], [''S2'', ''a'', ''b'']]" "[]" st_empty
        "''contigs.tab''" "[[''S1'', ''a'', ''b''], [], [''S2'', ''c'']]" "[]"]
  by (simp add: skipped_row_def startswith_hash_def st_empty_def print_def)

subsection \<open>Classifier adapter\<close>

lemma fst_parse_report:
  "fst (parse_report rp reader st) =
     (case reader of
        [] \<Rightarrow> None
      | header # rest \<Rightarrow>
          (case rest of [] \<Rightarrow> None
           | row # _ \<Rightarrow> if length row < 2 then None else Some (py_strip (row ! 1))))"
  by (simp add: parse_report_def Let_def split: list.splits)

lemma snd_parse_report:
  "snd (parse_report rp reader st) =
     print (case fst (parse_report rp reader st) of
              Some clade \<Rightarrow> ExtractedClade clade
            | None \<Rightarrow> (if reader = [] then NoHeaderFound rp else NoExpectedColumns rp)) st"
  by (simp add: parse_report_def Let_def split: list.splits)

lemma parse_report_state_indep:
  "fst (parse_report rp reader st) = fst (parse_report rp reader st')"
  by (simp add: fst_parse_report)

lemma parse_report_Some:
  assumes "fst (parse_report rp reader st) = Some clade"
  shows "parse_report rp reader st' = (Some clade, print (ExtractedClade clade) st')"
proof -
  have p: "fst (parse_report rp reader st') = Some clade"
    using assms parse_report_state_indep by metis
  have q: "snd (parse_report rp reader st') = print (ExtractedClade clade) st'"
    by (simp add: snd_parse_report p)
  show ?thesis using p q by (metis prod.collapse)
qed

text \<open>
  Claim C9: \<open>parse_report\<close> consumes the first row as the header. With a header row and a
  data row of at least two columns it returns the second column of the data row,
  stripped; with no header row, no data row or a data row of fewer than two columns it
  returns \<open>None\<close>. In every case it does nothing else than print one message.
\<close>

theorem parse_report_cases:
  "(reader = [] \<longrightarrow> fst (parse_report rp reader st) = None) \<and>
   (\<forall>header. reader = [header] \<longrightarrow> fst (parse_report rp reader st) = None) \<and>
   (\<forall>header row rest. reader = header # row # rest \<and> length row < 2 \<longrightarrow>
        fst (parse_report rp reader st) = None) \<and>
   (\<forall>header row rest. reader = header # row # rest \<and> 2 \<le> length row \<longrightarrow>
        fst (parse_report rp reader st) = Some (py_strip (row ! 1))) \<and>
   (\<exists>m. snd (parse_report rp reader st) = print m st)"
  by (auto simp: fst_parse_report snd_parse_report)

theorem parse_report_cases_witness:
  "fst (parse_report ''report.tsv'' [[''Sample'', ''Clade''], [''S1'', '' Clade II '', ''0.99'']]
         st_empty) = Some ''Clade II'' \<and>
   fst (parse_report ''report.tsv'' [] st_empty) = None \<and>
   fst (parse_report ''report.tsv'' [[''Sample'', ''Clade'']] st_empty) = None \<and>
   fst (parse_report ''report.tsv'' [[''Sample'', ''Clade''], [''S1'']] st_empty) = None"
  using parse_report_cases
          [of "[[''Sample'', ''Clade''], [''S1'', '' Clade II '', ''0.99'']]" "''report.tsv''" st_empty]
        parse_report_cases [of "[]" "''report.tsv''" st_empty]
        parse_report_cases [of "[[''Sample'', ''Clade'']]" "''report.tsv''" st_empty]
        parse_report_cases [of "[[''Sample'', ''Clade''], [''S1'']]" "''report.tsv''" st_empty]
  by (simp add: py_strip_def py_isspace_def)

subsection \<open>Orchestrator: isolates that are skipped\<close>

lemma process_sample_classifier_failure:
  assumes "returncode (auriclass inp reads1 isolate_id) \<noteq> 0 \<or>
           report_tsv (auriclass inp reads1 isolate_id) = None"
  shows "process_sample inp contigs_dict st (isolate_id, reads1, reads2) =
           st\<lparr>stdout := stdout st @
              [ProcessingSample isolate_id,
               RunningAuriclass isolate_id [''auriclass'', reads1],
               (if returncode (auriclass inp reads1 isolate_id) \<noteq> 0
                then ErrorRunningAuriclass isolate_id (stderr (auriclass inp reads1 isolate_id))
                else ReportNotFound ''report.tsv'' isolate_id),
               SkippingAuriclassError isolate_id]\<rparr>"
  using assms
  by (auto simp: process_sample_def run_auriclass_def print_def Let_def)

text \<open>
  Claim C3: when the classifier exits with a non-zero status, or leaves no report, the
  iteration writes to no file and changes no index: it only prints, the last message
  being the notice that the isolate is skipped. The loop then goes on with the
  remaining isolates.
\<close>

theorem classifier_failure_writes_nothing:
  assumes "returncode (auriclass inp reads1 isolate_id) \<noteq> 0 \<or>
           report_tsv (auriclass inp reads1 isolate_id) = None"
      and "st' = process_sample inp contigs_dict st (isolate_id, reads1, reads2)"
  shows "files st' = files st \<and>
         file_written_ids st' = file_written_ids st \<and>
         stdout st' = stdout st @
              [ProcessingSample isolate_id,
               RunningAuriclass isolate_id [''auriclass'', reads1],
               (if returncode (auriclass inp reads1 isolate_id) \<noteq> 0
                then ErrorRunningAuriclass isolate_id (stderr (auriclass inp reads1 isolate_id))
                else ReportNotFound ''report.tsv'' isolate_id),
               SkippingAuriclassError isolate_id] \<and>
         process_samples inp contigs_dict st ((isolate_id, reads1, reads2) # items) =
           process_samples inp contigs_dict st' items"
proof -
  note eq = process_sample_classifier_failure [OF assms(1), of contigs_dict st reads2]
  have 1: "files st' = files st" by (simp only: assms(2) eq) simp
  have 2: "file_written_ids st' = file_written_ids st" by (simp only: assms(2) eq) simp
  have 3: "stdout st' = stdout st @
              [ProcessingSample isolate_id,
               RunningAuriclass isolate_id [''auriclass'', reads1],
               (if returncode (auriclass inp reads1 isolate_id) \<noteq> 0
                then ErrorRunningAuriclass isolate_id (stderr (auriclass inp reads1 isolate_id))
                else ReportNotFound ''report.tsv'' isolate_id),
               SkippingAuriclassError isolate_id]"
    by (simp only: assms(2) eq) simp
  have 4: "process_samples inp contigs_dict st ((isolate_id, reads1, reads2) # items) =
           process_samples inp contigs_dict st' items"
    by (simp only: assms(2) process_samples.simps)
  from 1 2 3 4 show ?thesis by blast
qed

theorem classifier_failure_writes_nothing_witness:
  "returncode (auriclass ex_inp ''fail.fq'' ''S1'') \<noteq> 0 \<and>
   files (process_sample ex_inp [] st_empty (''S1'', ''fail.fq'', ''r2.fq'')) = files st_empty \<and>
   stdout (process_sample ex_inp [] st_empty (''S1'', ''fail.fq'', ''r2.fq'')) =
     [ProcessingSample ''S1'', RunningAuriclass ''S1'' [''auriclass'', ''fail.fq''],
      ErrorRunningAuriclass ''S1'' ''no reads'', SkippingAuriclassError ''S1''] \<and>
   report_tsv (auriclass ex_inp ''noreport.fq'' ''S2'') = None \<and>
   files (process_sample ex_inp [] st_empty (''S2'', ''noreport.fq'', ''r2.fq'')) = files st_empty \<and>
   stdout (process_sample ex_inp [] st_empty (''S2'', ''noreport.fq'', ''r2.fq'')) =
     [ProcessingSample ''S2'', RunningAuriclass ''S2'' [''auriclass'', ''noreport.fq''],
      ReportNotFound ''report.tsv'' ''S2'', SkippingAuriclassError ''S2'']"
proof -
  have rc: "returncode (auriclass ex_inp ''fail.fq'' ''S1'') = 1"
    by (simp add: ex_inp_def ex_tool_def)
  have err: "stderr (auriclass ex_inp ''fail.fq'' ''S1'') = ''no reads''"
    by (simp add: ex_inp_def ex_tool_def)
  have h: "returncode (auriclass ex_inp ''fail.fq'' ''S1'') \<noteq> 0 \<or>
           report_tsv (auriclass ex_inp ''fail.fq'' ''S1'') = None"
    by (simp add: rc)
  have rc': "returncode (auriclass ex_inp ''noreport.fq'' ''S2'') = 0"
    by (simp add: ex_inp_def ex_tool_def)
  have rep: "report_tsv (auriclass ex_inp ''noreport.fq'' ''S2'') = None"
    by (simp add: ex_inp_def ex_tool_def)
  have h': "returncode (auriclass ex_inp ''noreport.fq'' ''S2'') \<noteq> 0 \<or>
            report_tsv (auriclass ex_inp ''noreport.fq'' ''S2'') = None"
    by (simp add: rep)
  have e: "stdout st_empty = []"
    by (simp add: st_empty_def)
  show ?thesis
    using classifier_failure_writes_nothing [OF h refl, of "[]" st_empty "''r2.fq''" "[]"]
          classifier_failure_writes_nothing [OF h' refl, of "[]" st_empty "''r2.fq''" "[]"]
    by (simp add: rc err rc' rep e)
qed

text \<open>
  Claim C4: when the label extracted from the report is not one of the six allowed
  names, the iteration writes to no file and changes no index; it prints the warning
  and the loop goes on with the remaining isolates.
\<close>

theorem disallowed_clade_writes_nothing:
  assumes "returncode (auriclass inp reads1 isolate_id) = 0"
      and "report_tsv (auriclass inp reads1 isolate_id) = Some reader"
      and "fst (parse_report ''report.tsv'' reader st) = Some clade"
      and "clade \<notin> set allowed_clades"
      and "st' = process_sample inp contigs_dict st (isolate_id, reads1, reads2)"
  shows "files st' = files st \<and>
         file_written_ids st' = file_written_ids st \<and>
         stdout st' = stdout st @
              [ProcessingSample isolate_id,
               RunningAuriclass isolate_id [''auriclass'', reads1],
               ExtractedClade clade,
               WarningCladeNotAllowed clade isolate_id] \<and>
         process_samples inp contigs_dict st ((isolate_id, reads1, reads2) # items) =
           process_samples inp contigs_dict st' items"
  using assms(1,2,4,5)
  by (simp add: process_sample_def run_auriclass_def Let_def parse_report_Some [OF assms(3)])

theorem disallowed_clade_writes_nothing_witness:
  "returncode (auriclass ex_inp ''odd.fq'' ''S3'') = 0 \<and>
   report_tsv (auriclass ex_inp ''odd.fq'' ''S3'') =
     Some [[''Sample'', ''Clade''], [''S3'', ''Clade VII'']] \<and>
   fst (parse_report ''report.tsv'' [[''Sample'', ''Clade''], [''S3'', ''Clade VII'']] st_empty) =
     Some ''Clade VII'' \<and>
   ''Clade VII'' \<notin> set allowed_clades \<and>
   files (process_sample ex_inp [] st_empty (''S3'', ''odd.fq'', ''r2.fq'')) = Map.empty \<and>
   stdout (process_sample ex_inp [] st_empty (''S3'', ''odd.fq'', ''r2.fq'')) =
     [ProcessingSample ''S3'', RunningAuriclass ''S3'' [''auriclass'', ''odd.fq''],
      ExtractedClade ''Clade VII'', WarningCladeNotAllowed ''Clade VII'' ''S3'']"
proof -
  have 1: "returncode (auriclass ex_inp ''odd.fq'' ''S3'') = 0"
    by (simp add: ex_inp_def ex_tool_def)
  have 2: "report_tsv (auriclass ex_inp ''odd.fq'' ''S3'') =
             Some [[''Sample'', ''Clade''], [''S3'', ''Clade VII'']]"
    by (simp add: ex_inp_def ex_tool_def)
  have 3: "fst (parse_report ''report.tsv'' [[''Sample'', ''Clade''], [''S3'', ''Clade VII'']]
             st_empty) = Some ''Clade VII''"
    by (simp add: fst_parse_report py_strip_def py_isspace_def)
  have 4: "''Clade VII'' \<notin> set allowed_clades"
    by (simp add: allowed_clades_def)
  show ?thesis
    using disallowed_clade_writes_nothing [OF 1 2 3 4 refl, of "[]" "''r2.fq''" "[]"] 1 2 3 4
    by (simp add: st_empty_def)
qed

subsection \<open>Orchestrator: isolates of an allowed clade\<close>

lemma process_sample_allowed:
  assumes "returncode (auriclass inp reads1 isolate_id) = 0"
      and "report_tsv (auriclass inp reads1 isolate_id) = Some reader"
      and "fst (parse_report ''report.tsv'' reader st) = Some clade"
      and "clade \<in> set allowed_clades"
  shows "process_sample inp contigs_dict st (isolate_id, reads1, reads2) =
     (let st3 = print (ExtractedClade clade)
                  (print (RunningAuriclass isolate_id [''auriclass'', reads1])
                     (print (ProcessingSample isolate_id) st));
          rf = path_join (CLADE_DIR inp) (replace_space clade @ ''.reads.tab'');
          cf = path_join (CLADE_DIR inp) (replace_space clade @ ''.contigs.tab'');
          sf = SUMMARY_FILE (CLADE_DIR inp);
          st4 = snd (append_line_if_not_exists st3 rf
                       (isolate_id @ [TAB] @ reads1 @ [TAB] @ reads2 @ [LF]) isolate_id None);
          st5 = (if map_of contigs_dict isolate_id \<in> {None, Some []}
                 then print (WarningNoContigs isolate_id) st4
                 else snd (append_line_if_not_exists st4 cf
                             (isolate_id @ [TAB] @ the (map_of contigs_dict isolate_id) @ [LF])
                             isolate_id None));
          st6 = snd (append_line_if_not_exists st5 sf (isolate_id @ [TAB] @ clade @ [LF])
                       isolate_id (Some summary_header))
      in print (AssignedSample isolate_id clade rf cf sf) st6)"
  using assms(1,2,4)
  by (auto simp: process_sample_def run_auriclass_def Let_def parse_report_Some [OF assms(3)]
           split: option.splits)

text \<open>
  What the iteration does when the isolate has no usable contigs path: the reads row and
  the summary row go through \<open>append_line_if_not_exists\<close>, the contigs ledger is not
  touched and the warning is printed.
\<close>

lemma process_sample_without_contigs:
  assumes ok: "returncode (auriclass inp reads1 isolate_id) = 0"
      and rep: "report_tsv (auriclass inp reads1 isolate_id) = Some reader"
      and lab: "fst (parse_report ''report.tsv'' reader st) = Some clade"
      and allowed: "clade \<in> set allowed_clades"
      and nocontigs: "map_of contigs_dict isolate_id \<in> {None, Some []}"
      and st': "st' = process_sample inp contigs_dict st (isolate_id, reads1, reads2)"
      and rf: "rf = path_join (CLADE_DIR inp) (replace_space clade @ ''.reads.tab'')"
      and cf: "cf = path_join (CLADE_DIR inp) (replace_space clade @ ''.contigs.tab'')"
      and sf: "sf = SUMMARY_FILE (CLADE_DIR inp)"
  shows "files st' rf =
           (if isolate_id \<in> known_ids st rf None then files st rf
            else Some (content_of st rf @ isolate_id @ [TAB] @ reads1 @ [TAB] @ reads2 @ [LF]))"
    and "files st' sf =
           (if isolate_id \<in> known_ids st sf (Some summary_header) then files st sf
            else Some (content_of st sf @ isolate_id @ [TAB] @ clade @ [LF]))"
    and "isolate_id \<in> ids_of st' rf"
    and "isolate_id \<in> ids_of st' sf"
    and "files st' cf = files st cf"
    and "file_written_ids st' cf = file_written_ids st cf"
    and "WarningNoContigs isolate_id \<in> set (stdout st')"
proof -
  note d = ledger_paths_distinct [OF allowed, of "CLADE_DIR inp"]
  note ps = process_sample_allowed [OF ok rep lab allowed, of contigs_dict reads2]
  have eq: "st' =
     print (AssignedSample isolate_id clade rf cf sf)
       (snd (append_line_if_not_exists
               (print (WarningNoContigs isolate_id)
                  (snd (append_line_if_not_exists
                          (print (ExtractedClade clade)
                             (print (RunningAuriclass isolate_id [''auriclass'', reads1])
                                (print (ProcessingSample isolate_id) st)))
                          rf (isolate_id @ [TAB] @ reads1 @ [TAB] @ reads2 @ [LF]) isolate_id None)))
               sf (isolate_id @ [TAB] @ clade @ [LF]) isolate_id (Some summary_header)))"
    using nocontigs unfolding st' ps Let_def rf cf sf by simp
  have ne: "rf \<noteq> cf" "rf \<noteq> sf" "cf \<noteq> sf" "sf \<noteq> rf" "cf \<noteq> rf" "sf \<noteq> cf"
    using d unfolding rf cf sf by simp_all
  show "files st' rf =
           (if isolate_id \<in> known_ids st rf None then files st rf
            else Some (content_of st rf @ isolate_id @ [TAB] @ reads1 @ [TAB] @ reads2 @ [LF]))"
    unfolding eq using ne
    by (simp add: files_append_other files_append_same content_of_def)
  show "files st' sf =
           (if isolate_id \<in> known_ids st sf (Some summary_header) then files st sf
            else Some (content_of st sf @ isolate_id @ [TAB] @ clade @ [LF]))"
    unfolding eq using ne
    by (simp add: files_append_other files_append_same content_of_def known_ids_append_other)
  show "isolate_id \<in> ids_of st' rf"
    unfolding eq using ne
    by (simp add: ids_of_def index_append_other index_append_same)
  show "isolate_id \<in> ids_of st' sf"
    unfolding eq using ne
    by (simp add: ids_of_def index_append_other index_append_same)
  show "files st' cf = files st cf"
    unfolding eq using ne by (simp add: files_append_other)
  show "file_written_ids st' cf = file_written_ids st cf"
    unfolding eq using ne by (simp add: index_append_other)
  show "WarningNoContigs isolate_id \<in> set (stdout st')"
    unfolding eq by (simp add: stdout_append)
qed

lemma st_empty_known [simp]: "known_ids st_empty f h = {}"
  by (simp add: known_ids_def ids_of_def load_file_ids_def st_empty_def)

lemma st_empty_content [simp]: "content_of st_empty f = []"
  by (simp add: content_of_def st_empty_def)

lemma ex_inp_good:
  "returncode (auriclass ex_inp ''r1.fq.gz'' ''S1'') = 0"
  "report_tsv (auriclass ex_inp ''r1.fq.gz'' ''S1'') =
     Some [[''Sample'', ''Clade''], [''S1'', '' Clade II '']]"
  "fst (parse_report ''report.tsv'' [[''Sample'', ''Clade''], [''S1'', '' Clade II '']] st_empty) =
     Some ''Clade II''"
  "''Clade II'' \<in> set allowed_clades"
  by (simp_all add: ex_inp_def ex_tool_def fst_parse_report py_strip_def py_isspace_def
        allowed_clades_def)

lemma ex_inp_paths:
  "path_join (CLADE_DIR ex_inp) (replace_space ''Clade II'' @ ''.reads.tab'') =
     ''clades/Clade_II.reads.tab''"
  "path_join (CLADE_DIR ex_inp) (replace_space ''Clade II'' @ ''.contigs.tab'') =
     ''clades/Clade_II.contigs.tab''"
  "SUMMARY_FILE (CLADE_DIR ex_inp) = ''clades/Clade_designations.tab''"
  by (simp_all add: ex_inp_def path_join_def replace_space_def SUMMARY_FILE_def)

lemma process_sample_without_contigs_stdout:
  assumes ok: "returncode (auriclass inp reads1 isolate_id) = 0"
      and rep: "report_tsv (auriclass inp reads1 isolate_id) = Some reader"
      and lab: "fst (parse_report ''report.tsv'' reader st) = Some clade"
      and allowed: "clade \<in> set allowed_clades"
      and nocontigs: "map_of contigs_dict isolate_id \<in> {None, Some []}"
      and st': "st' = process_sample inp contigs_dict st (isolate_id, reads1, reads2)"
      and rf: "rf = path_join (CLADE_DIR inp) (replace_space clade @ ''.reads.tab'')"
      and cf: "cf = path_join (CLADE_DIR inp) (replace_space clade @ ''.contigs.tab'')"
      and sf: "sf = SUMMARY_FILE (CLADE_DIR inp)"
  shows "stdout st' =
           stdout st @
           [ProcessingSample isolate_id, RunningAuriclass isolate_id [''auriclass'', reads1],
            ExtractedClade clade] @
           (if isolate_id \<in> known_ids st rf None then [AlreadyExists isolate_id rf] else []) @
           [WarningNoContigs isolate_id] @
           (if isolate_id \<in> known_ids st sf (Some summary_header)
            then [AlreadyExists isolate_id sf] else []) @
           [AssignedSample isolate_id clade rf cf sf]"
proof -
  note d = ledger_paths_distinct [OF allowed, of "CLADE_DIR inp"]
  note ps = process_sample_allowed [OF ok rep lab allowed, of contigs_dict reads2]
  have eq: "st' =
     print (AssignedSample isolate_id clade rf cf sf)
       (snd (append_line_if_not_exists
               (print (WarningNoContigs isolate_id)
                  (snd (append_line_if_not_exists
                          (print (ExtractedClade clade)
                             (print (RunningAuriclass isolate_id [''auriclass'', reads1])
                                (print (ProcessingSample isolate_id) st)))
                          rf (isolate_id @ [TAB] @ reads1 @ [TAB] @ reads2 @ [LF]) isolate_id None)))
               sf (isolate_id @ [TAB] @ clade @ [LF]) isolate_id (Some summary_header)))"
    using nocontigs unfolding st' ps Let_def rf cf sf by simp
  have ne: "sf \<noteq> rf"
    using d unfolding rf cf sf by simp
  show ?thesis
    unfolding eq using ne by (simp add: stdout_append known_ids_append_other)
qed

lemma padded_ledgers_known:
  "known_ids padded_ledgers ''clades/Clade_II.reads.tab'' None = {''S1''}"
  "known_ids padded_ledgers ''clades/Clade_designations.tab'' (Some summary_header) = {''S1''}"
  by (simp_all add: known_ids_def ids_of_def load_file_ids_def padded_ledgers_def py_lines_def
        summary_header_def py_strip_def py_isspace_def)

lemma main_ex_inp:
  "main ex_inp (files padded_ledgers) =
     print PipelineCompleted
       (process_sample ex_inp [] padded_ledgers (''S1'', ''r1.fq.gz'', ''r2.fq.gz''))"
proof -
  have l1: "load_reads (READS_TAB ex_inp) (reads_rows ex_inp) [] st =
              ([(''S1'', ''r1.fq.gz'', ''r2.fq.gz'')], st)" for st
    by (simp add: ex_inp_def skipped_row_def startswith_hash_def)
  have l2: "load_contigs (CONTIGS_TAB ex_inp) (contigs_rows ex_inp) [] st = ([], st)" for st
    by (simp add: ex_inp_def)
  have s: "\<lparr>files = files padded_ledgers, file_written_ids = Map.empty, stdout = []\<rparr> =
             padded_ledgers"
    by (simp add: padded_ledgers_def)
  have c: "create_summary_file (CLADE_DIR ex_inp) padded_ledgers = padded_ledgers"
    by (simp add: create_summary_file_def SUMMARY_FILE_def path_join_def ex_inp_def
          padded_ledgers_def)
  show ?thesis
    by (simp add: main_def Let_def l1 l2 s c)
qed

text \<open>
  Claim C6, as stated: an isolate of the reads table that classifies to an allowed clade
  and has no entry in the contigs table gets a row in the reads ledger of the clade and a
  row in the summary ledger. The isolate \<^verbatim>\<open>S1\<close> classifies to \<^verbatim>\<open>Clade II\<close> and has no
  contigs entry, but the two ledgers already hold a row whose first field is \<^verbatim>\<open>" S1"\<close>,
  which the index reads as \<^verbatim>\<open>S1\<close>: both appends are refused with the notice, both files
  stay as they were, also at the end of the whole run over the reads table of \<open>ex_inp\<close>,
  and no row of either file has \<^verbatim>\<open>S1\<close> as its first field.
\<close>

theorem recorded_identifier_gets_no_row:
  "returncode (auriclass ex_inp ''r1.fq.gz'' ''S1'') = 0 \<and>
   fst (parse_report ''report.tsv'' [[''Sample'', ''Clade''], [''S1'', '' Clade II '']]
          padded_ledgers) = Some ''Clade II'' \<and>
   ''Clade II'' \<in> set allowed_clades \<and>
   map_of ([] :: (string \<times> string) list) ''S1'' = None \<and>
   files (process_sample ex_inp [] padded_ledgers (''S1'', ''r1.fq.gz'', ''r2.fq.gz''))
     ''clades/Clade_II.reads.tab'' =
     Some ('' S1'' @ [TAB] @ ''r1.fq.gz'' @ [TAB] @ ''r2.fq.gz'' @ [LF]) \<and>
   files (process_sample ex_inp [] padded_ledgers (''S1'', ''r1.fq.gz'', ''r2.fq.gz''))
     ''clades/Clade_designations.tab'' =
     Some (summary_header @ [LF] @ '' S1'' @ [TAB] @ ''Clade II'' @ [LF]) \<and>
   files (main ex_inp (files padded_ledgers)) ''clades/Clade_II.reads.tab'' =
     Some ('' S1'' @ [TAB] @ ''r1.fq.gz'' @ [TAB] @ ''r2.fq.gz'' @ [LF]) \<and>
   files (main ex_inp (files padded_ledgers)) ''clades/Clade_designations.tab'' =
     Some (summary_header @ [LF] @ '' S1'' @ [TAB] @ ''Clade II'' @ [LF]) \<and>
   map first_field (py_lines ('' S1'' @ [TAB] @ ''r1.fq.gz'' @ [TAB] @ ''r2.fq.gz'' @ [LF])) =
     ['' S1''] \<and>
   map first_field (py_lines (summary_header @ [LF] @ '' S1'' @ [TAB] @ ''Clade II'' @ [LF])) =
     [''Isolate_ID'', '' S1''] \<and>
   stdout (process_sample ex_inp [] padded_ledgers (''S1'', ''r1.fq.gz'', ''r2.fq.gz'')) =
     [ProcessingSample ''S1'', RunningAuriclass ''S1'' [''auriclass'', ''r1.fq.gz''],
      ExtractedClade ''Clade II'',
      AlreadyExists ''S1'' ''clades/Clade_II.reads.tab'',
      WarningNoContigs ''S1'',
      AlreadyExists ''S1'' ''clades/Clade_designations.tab'',
      AssignedSample ''S1'' ''Clade II'' ''clades/Clade_II.reads.tab''
        ''clades/Clade_II.contigs.tab'' ''clades/Clade_designations.tab'']"
proof -
  let ?st' = "process_sample ex_inp [] padded_ledgers (''S1'', ''r1.fq.gz'', ''r2.fq.gz'')"
  have lab: "fst (parse_report ''report.tsv'' [[''Sample'', ''Clade''], [''S1'', '' Clade II '']]
               padded_ledgers) = Some ''Clade II''"
    by (simp add: fst_parse_report py_strip_def py_isspace_def)
  have n: "map_of ([] :: (string \<times> string) list) ''S1'' \<in> {None, Some []}"
    by simp
  note r = process_sample_without_contigs
             [OF ex_inp_good(1,2) lab ex_inp_good(4) n refl ex_inp_paths(1) [symmetric]
                 ex_inp_paths(2) [symmetric] ex_inp_paths(3) [symmetric], of "''r2.fq.gz''"]
  note s = process_sample_without_contigs_stdout
             [OF ex_inp_good(1,2) lab ex_inp_good(4) n refl ex_inp_paths(1) [symmetric]
                 ex_inp_paths(2) [symmetric] ex_inp_paths(3) [symmetric], of "''r2.fq.gz''"]
  have 1: "files ?st' ''clades/Clade_II.reads.tab'' =
             Some ('' S1'' @ [TAB] @ ''r1.fq.gz'' @ [TAB] @ ''r2.fq.gz'' @ [LF])"
    using r(1) by (simp add: padded_ledgers_known) (simp add: padded_ledgers_def)
  have 2: "files ?st' ''clades/Clade_designations.tab'' =
             Some (summary_header @ [LF] @ '' S1'' @ [TAB] @ ''Clade II'' @ [LF])"
    using r(2) by (simp add: padded_ledgers_known) (simp add: padded_ledgers_def)
  have 3: "map first_field
             (py_lines ('' S1'' @ [TAB] @ ''r1.fq.gz'' @ [TAB] @ ''r2.fq.gz'' @ [LF])) = ['' S1'']"
    by (simp add: py_lines_def first_field_def)
  have 4: "map first_field
             (py_lines (summary_header @ [LF] @ '' S1'' @ [TAB] @ ''Clade II'' @ [LF])) =
           [''Isolate_ID'', '' S1'']"
    by (simp add: py_lines_def first_field_def summary_header_def)
  have 5: "stdout ?st' =
     [ProcessingSample ''S1'', RunningAuriclass ''S1'' [''auriclass'', ''r1.fq.gz''],
      ExtractedClade ''Clade II'',
      AlreadyExists ''S1'' ''clades/Clade_II.reads.tab'',
      WarningNoContigs ''S1'',
      AlreadyExists ''S1'' ''clades/Clade_designations.tab'',
      AssignedSample ''S1'' ''Clade II'' ''clades/Clade_II.reads.tab''
        ''clades/Clade_II.contigs.tab'' ''clades/Clade_designations.tab'']"
    using s by (simp add: padded_ledgers_known) (simp add: padded_ledgers_def)
  have 6: "files (main ex_inp (files padded_ledgers)) ''clades/Clade_II.reads.tab'' =
             Some ('' S1'' @ [TAB] @ ''r1.fq.gz'' @ [TAB] @ ''r2.fq.gz'' @ [LF])"
    by (simp only: main_ex_inp files_print 1)
  have 7: "files (main ex_inp (files padded_ledgers)) ''clades/Clade_designations.tab'' =
             Some (summary_header @ [LF] @ '' S1'' @ [TAB] @ ''Clade II'' @ [LF])"
    by (simp only: main_ex_inp files_print 2)
  have 0: "map_of ([] :: (string \<times> string) list) ''S1'' = None"
    by simp
  from ex_inp_good(1) lab ex_inp_good(4) 0 1 2 6 7 3 4 5 show ?thesis
    by (intro conjI)
qed

text \<open>
  Claim C6, amended: an isolate of the reads table that classifies to an allowed clade and
  has no entry in the contigs table. Its reads row is passed to the idempotent append on
  the reads ledger of the clade and its summary row on the summary ledger: each row is
  appended unless the identifier is already in the membership set of that file (the set
  of the index, or the set read from the file when the file is first referenced), and
  then the file is left as it was; either way the identifier is in both membership sets
  afterwards. The contigs ledger of the clade is left as it was, the warning is printed,
  and the loop goes on with the remaining isolates.
\<close>

theorem missing_contigs_entry:
  assumes ok: "returncode (auriclass inp reads1 isolate_id) = 0"
      and rep: "report_tsv (auriclass inp reads1 isolate_id) = Some reader"
      and lab: "fst (parse_report ''report.tsv'' reader st) = Some clade"
      and allowed: "clade \<in> set allowed_clades"
      and nocontigs: "map_of contigs_dict isolate_id = None"
      and st': "st' = process_sample inp contigs_dict st (isolate_id, reads1, reads2)"
      and rf: "rf = path_join (CLADE_DIR inp) (replace_space clade @ ''.reads.tab'')"
      and cf: "cf = path_join (CLADE_DIR inp) (replace_space clade @ ''.contigs.tab'')"
      and sf: "sf = SUMMARY_FILE (CLADE_DIR inp)"
  shows "files st' rf =
           (if isolate_id \<in> known_ids st rf None then files st rf
            else Some (content_of st rf @ isolate_id @ [TAB] @ reads1 @ [TAB] @ reads2 @ [LF])) \<and>
         files st' sf =
           (if isolate_id \<in> known_ids st sf (Some summary_header) then files st sf
            else Some (content_of st sf @ isolate_id @ [TAB] @ clade @ [LF])) \<and>
         isolate_id \<in> ids_of st' rf \<and>
         isolate_id \<in> ids_of st' sf \<and>
         files st' cf = files st cf \<and>
         file_written_ids st' cf = file_written_ids st cf \<and>
         WarningNoContigs isolate_id \<in> set (stdout st') \<and>
         process_samples inp contigs_dict st ((isolate_id, reads1, reads2) # items) =
           process_samples inp contigs_dict st' items"
proof -
  have n: "map_of contigs_dict isolate_id \<in> {None, Some []}"
    using nocontigs by simp
  note r = process_sample_without_contigs [OF ok rep lab allowed n st' rf cf sf]
  have l: "process_samples inp contigs_dict st ((isolate_id, reads1, reads2) # items) =
           process_samples inp contigs_dict st' items"
    by (simp only: st' process_samples.simps)
  from r l show ?thesis by blast
qed

theorem missing_contigs_entry_witness:
  "map_of ([] :: (string \<times> string) list) ''S1'' = None \<and>
   files (process_sample ex_inp [] st_empty (''S1'', ''r1.fq.gz'', ''r2.fq.gz''))
     ''clades/Clade_II.reads.tab'' =
     Some (''S1'' @ [TAB] @ ''r1.fq.gz'' @ [TAB] @ ''r2.fq.gz'' @ [LF]) \<and>
   files (process_sample ex_inp [] st_empty (''S1'', ''r1.fq.gz'', ''r2.fq.gz''))
     ''clades/Clade_designations.tab'' = Some (''S1'' @ [TAB] @ ''Clade II'' @ [LF]) \<and>
   files (process_sample ex_inp [] st_empty (''S1'', ''r1.fq.gz'', ''r2.fq.gz''))
     ''clades/Clade_II.contigs.tab'' = None \<and>
   WarningNoContigs ''S1'' \<in>
     set (stdout (process_sample ex_inp [] st_empty (''S1'', ''r1.fq.gz'', ''r2.fq.gz'')))"
proof -
  have n: "map_of ([] :: (string \<times> string) list) ''S1'' = None"
    by simp
  have f: "files st_empty g = None" for g
    by (simp add: st_empty_def)
  show ?thesis
    using missing_contigs_entry [OF ex_inp_good n refl ex_inp_paths(1) [symmetric]
            ex_inp_paths(2) [symmetric] ex_inp_paths(3) [symmetric], of "''r2.fq.gz''" "[]"]
    by (simp add: f)
qed




subsection \<open>Ledger store: the index of a file\<close>

lemma read_existing_ids_eq:
  "read_existing_ids h ls S = S \<union> set (map line_id (filter (data_line h) ls))"
  by (induction ls arbitrary: S) (auto simp: data_line_def line_id_def split: option.splits)

lemma known_ids_first_reference:
  assumes "file_written_ids st f = None"
  shows "known_ids st f h =
           (case files st f of None \<Rightarrow> {} | Some content \<Rightarrow> set (file_ids h content))"
  using assms
  by (simp add: known_ids_def ids_of_def load_file_ids_def read_existing_ids_eq file_ids_def
        split: option.splits)

lemma create_summary_file_exists:
  "files st (SUMMARY_FILE d) \<noteq> None \<Longrightarrow> create_summary_file d st = st"
  by (auto simp: create_summary_file_def)

lemma header_line_is_no_row:
  "\<not> data_line (Some summary_header) (summary_header @ [LF])"
  by (simp add: data_line_def summary_header_def py_strip_def py_isspace_def)

lemma py_lines_padded:
  "py_lines padded_summary =
     [summary_header @ [CHR '' '', LF], '' A'' @ [TAB] @ ''Clade I'' @ [LF]]"
  by (simp add: py_lines_def padded_summary_def summary_header_def)

text \<open>
  Claim C5, as stated: a line is skipped when it exactly matches the header, and the
  first tab-delimited field of every other line is a known identifier. In the ledger
  \<open>padded_summary\<close> the first line is the header followed by a blank, which is not the
  header line, and the first tab-delimited field of the second line is \<^verbatim>\<open>" A"\<close>; the
  index built from it holds neither \<^verbatim>\<open>"Isolate_ID"\<close> nor \<^verbatim>\<open>" A"\<close>, but \<^verbatim>\<open>"A"\<close>.
\<close>

theorem index_strips_header_and_fields:
  "py_lines padded_summary =
     [summary_header @ [CHR '' '', LF], '' A'' @ [TAB] @ ''Clade I'' @ [LF]] \<and>
   summary_header @ [CHR '' '', LF] \<noteq> summary_header @ [LF] \<and>
   hd (py_split TAB (summary_header @ [CHR '' '', LF])) = ''Isolate_ID'' \<and>
   hd (py_split TAB ('' A'' @ [TAB] @ ''Clade I'' @ [LF])) = '' A'' \<and>
   read_existing_ids (Some summary_header) (py_lines padded_summary) {} = {''A''} \<and>
   ''Isolate_ID'' \<notin> read_existing_ids (Some summary_header) (py_lines padded_summary) {} \<and>
   '' A'' \<notin> read_existing_ids (Some summary_header) (py_lines padded_summary) {}"
  by (simp add: py_lines_padded) (simp add: summary_header_def py_strip_def py_isspace_def)

text \<open>
  Claim C5, amended: when a file is first referenced in a run, its index is the set of
  the identifiers of its rows, where a line is a row unless it is blank once stripped or
  equals the header once both are stripped, and the identifier of a row is its first
  tab-delimited field with leading and trailing whitespace stripped (an absent file has
  no row). A call whose identifier is in that set is reported as already existing,
  returns False and writes nothing. When the summary ledger exists at the start of a
  run it is not rewritten, and its header line is not a row.
\<close>

theorem index_built_on_first_reference:
  "(file_written_ids st f = None \<longrightarrow>
      known_ids st f h =
        (case files st f of None \<Rightarrow> {} | Some content \<Rightarrow> set (file_ids h content))) \<and>
   (i \<in> known_ids st f h \<longrightarrow>
      append_line_if_not_exists st f line i h =
        (False, print (AlreadyExists i f) (load_file_ids st f h)) \<and>
      files (snd (append_line_if_not_exists st f line i h)) = files st) \<and>
   (files st (SUMMARY_FILE d) \<noteq> None \<longrightarrow> create_summary_file d st = st) \<and>
   \<not> data_line (Some summary_header) (summary_header @ [LF])"
  by (simp add: known_ids_first_reference create_summary_file_exists header_line_is_no_row
        append_line_eq)

lemma file_ids_rerun:
  "file_ids (Some summary_header)
     (summary_header @ [LF] @ ''S1'' @ [TAB] @ ''Clade II'' @ [LF]) = [''S1'']"
  by (simp add: file_ids_def py_lines_def summary_header_def data_line_def line_id_def
        py_strip_def py_isspace_def)

theorem index_built_on_first_reference_witness:
  "file_written_ids rerun_state ''clades/Clade_designations.tab'' = None \<and>
   known_ids rerun_state ''clades/Clade_designations.tab'' (Some summary_header) = {''S1''} \<and>
   fst (append_line_if_not_exists rerun_state ''clades/Clade_designations.tab''
          (''S1'' @ [TAB] @ ''Clade II'' @ [LF]) ''S1'' (Some summary_header)) = False \<and>
   files (snd (append_line_if_not_exists rerun_state ''clades/Clade_designations.tab''
          (''S1'' @ [TAB] @ ''Clade II'' @ [LF]) ''S1'' (Some summary_header))) =
     files rerun_state \<and>
   files rerun_state (SUMMARY_FILE ''clades'') \<noteq> None \<and>
   create_summary_file ''clades'' rerun_state = rerun_state"
proof -
  have n: "file_written_ids rerun_state ''clades/Clade_designations.tab'' = None"
    by (simp add: rerun_state_def)
  have c: "files rerun_state ''clades/Clade_designations.tab'' =
             Some (summary_header @ [LF] @ ''S1'' @ [TAB] @ ''Clade II'' @ [LF])"
    by (simp add: rerun_state_def)
  have p: "SUMMARY_FILE ''clades'' = ''clades/Clade_designations.tab''"
    by (simp add: SUMMARY_FILE_def path_join_def)
  note t = index_built_on_first_reference
             [of rerun_state "''clades/Clade_designations.tab''" "Some summary_header" "''S1''"
                 "''S1'' @ [TAB] @ ''Clade II'' @ [LF]" "''clades''"]
  from t n have k: "known_ids rerun_state ''clades/Clade_designations.tab'' (Some summary_header) =
                     {''S1''}"
    by (simp only: c option.case file_ids_rerun) simp
  show ?thesis
    using t n by (simp only: k p c) simp
qed

subsection \<open>Two runs over the same inputs\<close>

lemma process_sample_without_contigs_other:
  assumes ok: "returncode (auriclass inp reads1 isolate_id) = 0"
      and rep: "report_tsv (auriclass inp reads1 isolate_id) = Some reader"
      and lab: "fst (parse_report ''report.tsv'' reader st) = Some clade"
      and allowed: "clade \<in> set allowed_clades"
      and nocontigs: "map_of contigs_dict isolate_id \<in> {None, Some []}"
      and g: "g \<noteq> path_join (CLADE_DIR inp) (replace_space clade @ ''.reads.tab'')"
             "g \<noteq> SUMMARY_FILE (CLADE_DIR inp)"
  shows "files (process_sample inp contigs_dict st (isolate_id, reads1, reads2)) g = files st g"
  using nocontigs g
  unfolding process_sample_allowed [OF ok rep lab allowed, of contigs_dict reads2] Let_def
  by (simp add: files_append_other)

lemma padded_inp_good:
  "returncode (auriclass padded_inp ''r1.fq.gz'' '' A'') = 0"
  "report_tsv (auriclass padded_inp ''r1.fq.gz'' '' A'') =
     Some [[''Sample'', ''Clade''], ['' A'', '' Clade II '']]"
  "fst (parse_report ''report.tsv'' [[''Sample'', ''Clade''], ['' A'', '' Clade II '']] st) =
     Some ''Clade II''"
  "''Clade II'' \<in> set allowed_clades"
  by (simp_all add: padded_inp_def ex_tool_def fst_parse_report py_strip_def py_isspace_def
        allowed_clades_def)

lemma padded_inp_paths:
  "path_join (CLADE_DIR padded_inp) (replace_space ''Clade II'' @ ''.reads.tab'') =
     ''clades/Clade_II.reads.tab''"
  "path_join (CLADE_DIR padded_inp) (replace_space ''Clade II'' @ ''.contigs.tab'') =
     ''clades/Clade_II.contigs.tab''"
  "SUMMARY_FILE (CLADE_DIR padded_inp) = ''clades/Clade_designations.tab''"
  by (simp_all add: padded_inp_def path_join_def replace_space_def SUMMARY_FILE_def)

lemma main_padded_inp:
  "main padded_inp fs =
     print PipelineCompleted
       (process_sample padded_inp []
          (create_summary_file (CLADE_DIR padded_inp)
             \<lparr>files = fs, file_written_ids = Map.empty, stdout = []\<rparr>)
          ('' A'', ''r1.fq.gz'', ''r2.fq.gz''))"
proof -
  have l1: "load_reads (READS_TAB padded_inp) (reads_rows padded_inp) [] st =
              ([('' A'', ''r1.fq.gz'', ''r2.fq.gz'')], st)" for st
    by (simp add: padded_inp_def skipped_row_def startswith_hash_def)
  have l2: "load_contigs (CONTIGS_TAB padded_inp) (contigs_rows padded_inp) [] st = ([], st)" for st
    by (simp add: padded_inp_def)
  show ?thesis
    by (simp add: main_def Let_def l1 l2)
qed

lemma create_summary_file_fresh:
  "create_summary_file ''clades'' \<lparr>files = Map.empty, file_written_ids = Map.empty, stdout = []\<rparr> =
     \<lparr>files = [''clades/Clade_designations.tab'' \<mapsto> summary_header @ [LF]],
      file_written_ids = [''clades/Clade_designations.tab'' \<mapsto> {}], stdout = []\<rparr>"
  by (simp add: create_summary_file_def SUMMARY_FILE_def path_join_def)

lemma first_run_padded:
  "files (main padded_inp Map.empty) =
     [''clades/Clade_designations.tab'' \<mapsto>
        summary_header @ [LF] @ '' A'' @ [TAB] @ ''Clade II'' @ [LF],
      ''clades/Clade_II.reads.tab'' \<mapsto>
        '' A'' @ [TAB] @ ''r1.fq.gz'' @ [TAB] @ ''r2.fq.gz'' @ [LF]]"
proof -
  let ?st = "\<lparr>files = [''clades/Clade_designations.tab'' \<mapsto> summary_header @ [LF]],
              file_written_ids = [''clades/Clade_designations.tab'' \<mapsto> {}], stdout = []\<rparr>"
  let ?st' = "process_sample padded_inp [] ?st ('' A'', ''r1.fq.gz'', ''r2.fq.gz'')"
  have d: "CLADE_DIR padded_inp = ''clades''"
    by (simp add: padded_inp_def)
  have m: "files (main padded_inp Map.empty) = files ?st'"
    by (simp add: main_padded_inp d create_summary_file_fresh)
  have n: "map_of ([] :: (string \<times> string) list) '' A'' \<in> {None, Some []}"
    by simp
  note r = process_sample_without_contigs
             [where st = ?st and ?reads2.0 = "''r2.fq.gz''" and contigs_dict = "[]",
              OF padded_inp_good n refl padded_inp_paths(1) [symmetric]
                 padded_inp_paths(2) [symmetric] padded_inp_paths(3) [symmetric]]
  note o = process_sample_without_contigs_other
             [where st = ?st and ?reads2.0 = "''r2.fq.gz''" and contigs_dict = "[]",
              OF padded_inp_good n]
  have k1: "known_ids ?st ''clades/Clade_II.reads.tab'' None = {}"
    by (simp add: known_ids_def ids_of_def load_file_ids_def)
  have k2: "known_ids ?st ''clades/Clade_designations.tab'' (Some summary_header) = {}"
    by (simp add: known_ids_def ids_of_def load_file_ids_def)
  have f1: "files ?st' ''clades/Clade_II.reads.tab'' =
              Some ('' A'' @ [TAB] @ ''r1.fq.gz'' @ [TAB] @ ''r2.fq.gz'' @ [LF])"
    using r(1) by (simp add: k1 content_of_def)
  have f2: "files ?st' ''clades/Clade_designations.tab'' =
              Some (summary_header @ [LF] @ '' A'' @ [TAB] @ ''Clade II'' @ [LF])"
    using r(2) by (simp add: k2 content_of_def)
  have f3: "files ?st' g = None"
    if "g \<noteq> ''clades/Clade_II.reads.tab''" "g \<noteq> ''clades/Clade_designations.tab''" for g
    using o [of g] that by (simp add: padded_inp_paths)
  show ?thesis
    unfolding m
  proof (rule ext)
    fix g
    show "files ?st' g =
          [''clades/Clade_designations.tab'' \<mapsto>
             summary_header @ [LF] @ '' A'' @ [TAB] @ ''Clade II'' @ [LF],
           ''clades/Clade_II.reads.tab'' \<mapsto>
             '' A'' @ [TAB] @ ''r1.fq.gz'' @ [TAB] @ ''r2.fq.gz'' @ [LF]] g"
      using f1 f2 f3 [of g] by (cases "g = ''clades/Clade_II.reads.tab''";
          cases "g = ''clades/Clade_designations.tab''") simp_all
  qed
qed

lemma file_ids_padded_reads:
  "file_ids None ('' A'' @ [TAB] @ ''r1.fq.gz'' @ [TAB] @ ''r2.fq.gz'' @ [LF]) = [''A'']"
  by (simp add: file_ids_def py_lines_def data_line_def line_id_def py_strip_def py_isspace_def)

lemma file_ids_padded_summary:
  "file_ids (Some summary_header)
     (summary_header @ [LF] @ '' A'' @ [TAB] @ ''Clade II'' @ [LF]) = [''A'']"
  by (simp add: file_ids_def py_lines_def summary_header_def data_line_def line_id_def
        py_strip_def py_isspace_def)

lemma second_run_padded:
  fixes fs1 :: "string \<rightharpoonup> string"
  assumes fs1: "fs1 = [''clades/Clade_designations.tab'' \<mapsto>
                        summary_header @ [LF] @ '' A'' @ [TAB] @ ''Clade II'' @ [LF],
                      ''clades/Clade_II.reads.tab'' \<mapsto>
                        '' A'' @ [TAB] @ ''r1.fq.gz'' @ [TAB] @ ''r2.fq.gz'' @ [LF]]"
  shows "files (main padded_inp fs1) ''clades/Clade_II.reads.tab'' =
           Some ('' A'' @ [TAB] @ ''r1.fq.gz'' @ [TAB] @ ''r2.fq.gz'' @ [LF] @
                 '' A'' @ [TAB] @ ''r1.fq.gz'' @ [TAB] @ ''r2.fq.gz'' @ [LF])"
    and "files (main padded_inp fs1) ''clades/Clade_designations.tab'' =
           Some (summary_header @ [LF] @ '' A'' @ [TAB] @ ''Clade II'' @ [LF] @
                 '' A'' @ [TAB] @ ''Clade II'' @ [LF])"
    and "AlreadyExists '' A'' ''clades/Clade_II.reads.tab'' \<notin> set (stdout (main padded_inp fs1))"
proof -
  let ?st = "\<lparr>files = fs1, file_written_ids = Map.empty, stdout = []\<rparr>"
  let ?st' = "process_sample padded_inp [] ?st ('' A'', ''r1.fq.gz'', ''r2.fq.gz'')"
  have d: "CLADE_DIR padded_inp = ''clades''"
    by (simp add: padded_inp_def)
  have c: "create_summary_file ''clades'' ?st = ?st"
    by (rule create_summary_file_exists) (simp add: fs1 SUMMARY_FILE_def path_join_def)
  have m: "main padded_inp fs1 = print PipelineCompleted ?st'"
    by (simp only: main_padded_inp d c)
  have n: "map_of ([] :: (string \<times> string) list) '' A'' \<in> {None, Some []}"
    by simp
  note r = process_sample_without_contigs
             [where st = ?st and ?reads2.0 = "''r2.fq.gz''" and contigs_dict = "[]",
              OF padded_inp_good n refl padded_inp_paths(1) [symmetric]
                 padded_inp_paths(2) [symmetric] padded_inp_paths(3) [symmetric]]
  have i: "file_written_ids ?st g = None" for g
    by simp
  have c1: "files ?st ''clades/Clade_II.reads.tab'' =
              Some ('' A'' @ [TAB] @ ''r1.fq.gz'' @ [TAB] @ ''r2.fq.gz'' @ [LF])"
    by (simp add: fs1)
  have c2: "files ?st ''clades/Clade_designations.tab'' =
              Some (summary_header @ [LF] @ '' A'' @ [TAB] @ ''Clade II'' @ [LF])"
    by (simp add: fs1)
  have k1: "known_ids ?st ''clades/Clade_II.reads.tab'' None = {''A''}"
    by (simp only: known_ids_first_reference [OF i] c1 option.case file_ids_padded_reads) simp
  have k2: "known_ids ?st ''clades/Clade_designations.tab'' (Some summary_header) = {''A''}"
    by (simp only: known_ids_first_reference [OF i] c2 option.case file_ids_padded_summary) simp
  show "files (main padded_inp fs1) ''clades/Clade_II.reads.tab'' =
           Some ('' A'' @ [TAB] @ ''r1.fq.gz'' @ [TAB] @ ''r2.fq.gz'' @ [LF] @
                 '' A'' @ [TAB] @ ''r1.fq.gz'' @ [TAB] @ ''r2.fq.gz'' @ [LF])"
    using r(1) c1 by (simp add: m k1 content_of_def)
  show "files (main padded_inp fs1) ''clades/Clade_designations.tab'' =
           Some (summary_header @ [LF] @ '' A'' @ [TAB] @ ''Clade II'' @ [LF] @
                 '' A'' @ [TAB] @ ''Clade II'' @ [LF])"
    using r(2) c2 by (simp add: m k2 content_of_def)
  have out: "stdout ?st' =
               [ProcessingSample '' A'', RunningAuriclass '' A'' [''auriclass'', ''r1.fq.gz''],
                ExtractedClade ''Clade II'', WarningNoContigs '' A'',
                AssignedSample '' A'' ''Clade II'' ''clades/Clade_II.reads.tab''
                  ''clades/Clade_II.contigs.tab'' ''clades/Clade_designations.tab'']"
    unfolding process_sample_allowed [OF padded_inp_good, of "[]" ?st "''r2.fq.gz''"] Let_def
      padded_inp_paths
    by (simp add: stdout_append known_ids_append_other k1 k2)
  show "AlreadyExists '' A'' ''clades/Clade_II.reads.tab'' \<notin> set (stdout (main padded_inp fs1))"
    by (simp add: m out)
qed

text \<open>
  Claim C2 is violated by the code: with the identifier \<^verbatim>\<open>" A"\<close> in the reads table and
  an empty ledger directory, the first run writes one row to the reads ledger of the clade
  and one to the summary ledger; the second run, started on the files the first run
  left, reads the identifier \<^verbatim>\<open>"A"\<close> from both, does not find \<^verbatim>\<open>" A"\<close> among the known
  identifiers, and appends both rows again.
\<close>

theorem second_run_duplicates_padded_id:
  "files (main padded_inp Map.empty) ''clades/Clade_II.reads.tab'' =
     Some ('' A'' @ [TAB] @ ''r1.fq.gz'' @ [TAB] @ ''r2.fq.gz'' @ [LF]) \<and>
   files (main padded_inp (files (main padded_inp Map.empty))) ''clades/Clade_II.reads.tab'' =
     Some ('' A'' @ [TAB] @ ''r1.fq.gz'' @ [TAB] @ ''r2.fq.gz'' @ [LF] @
           '' A'' @ [TAB] @ ''r1.fq.gz'' @ [TAB] @ ''r2.fq.gz'' @ [LF]) \<and>
   files (main padded_inp Map.empty) ''clades/Clade_designations.tab'' =
     Some (summary_header @ [LF] @ '' A'' @ [TAB] @ ''Clade II'' @ [LF]) \<and>
   files (main padded_inp (files (main padded_inp Map.empty))) ''clades/Clade_designations.tab'' =
     Some (summary_header @ [LF] @ '' A'' @ [TAB] @ ''Clade II'' @ [LF] @
           '' A'' @ [TAB] @ ''Clade II'' @ [LF]) \<and>
   files (main padded_inp (files (main padded_inp Map.empty))) \<noteq> files (main padded_inp Map.empty)"
proof -
  note s = second_run_padded [OF first_run_padded]
  have 1: "files (main padded_inp Map.empty) ''clades/Clade_II.reads.tab'' =
     Some ('' A'' @ [TAB] @ ''r1.fq.gz'' @ [TAB] @ ''r2.fq.gz'' @ [LF])"
    by (simp add: first_run_padded)
  have 2: "files (main padded_inp Map.empty) ''clades/Clade_designations.tab'' =
     Some (summary_header @ [LF] @ '' A'' @ [TAB] @ ''Clade II'' @ [LF])"
    by (simp add: first_run_padded)
  have 3: "files (main padded_inp (files (main padded_inp Map.empty))) \<noteq>
           files (main padded_inp Map.empty)"
  proof
    assume "files (main padded_inp (files (main padded_inp Map.empty))) =
            files (main padded_inp Map.empty)"
    then have "files (main padded_inp (files (main padded_inp Map.empty)))
                 ''clades/Clade_II.reads.tab'' =
               files (main padded_inp Map.empty) ''clades/Clade_II.reads.tab''"
      by simp
    then show False
      unfolding s(1) 1 by simp
  qed
  from 1 2 3 s(1,2) show ?thesis by blast
qed

subsection \<open>Ledger store: rows of a ledger after a sequence of calls\<close>

lemma py_lines_from_append:
  "xs \<noteq> [] \<Longrightarrow> last xs = LF \<Longrightarrow>
   py_lines_from b cur (xs @ ys) = py_lines_from b cur xs @ py_lines_from False [] ys"
proof (induction xs arbitrary: b cur)
  case Nil
  then show ?case by simp
next
  case (Cons c cs)
  show ?case
  proof (cases "cs = []")
    case True
    with Cons.prems show ?thesis by simp
  next
    case False
    with Cons.prems have "last cs = LF" by simp
    with False Cons.IH show ?thesis by simp
  qed
qed

lemma py_lines_append:
  "c = [] \<or> last c = LF \<Longrightarrow> py_lines (c @ l) = py_lines c @ py_lines l"
  by (cases "c = []") (simp_all add: py_lines_def py_lines_from_append)

lemma py_lines_from_one_line:
  "LF \<notin> set s \<Longrightarrow> CR \<notin> set s \<Longrightarrow> py_lines_from False cur (s @ [LF]) = [cur @ s @ [LF]]"
  by (induction s arbitrary: cur) auto

lemma py_lines_one_line:
  assumes "l \<noteq> []" "last l = LF" "LF \<notin> set (butlast l)" "CR \<notin> set l"
  shows "py_lines l = [l]"
proof -
  have l: "l = butlast l @ [LF]"
    using assms(1,2) by (metis append_butlast_last_id)
  have "CR \<notin> set (butlast l)"
    using assms(4) by (meson in_set_butlastD)
  then have "py_lines_from False [] (butlast l @ [LF]) = [[] @ butlast l @ [LF]]"
    using assms(3) by (rule py_lines_from_one_line [rotated])
  then show ?thesis
    using l by (simp add: py_lines_def)
qed

lemma py_split_nonempty: "py_split sep s \<noteq> []"
  by (induction s) (auto split: list.splits)

lemma hd_py_split: "hd (py_split sep s) = takeWhile (\<lambda>c. c \<noteq> sep) s"
  using py_split_nonempty [of sep]
  by (induction s) (auto split: list.splits)

lemma takeWhile_before_sep:
  "sep \<notin> set i \<Longrightarrow> takeWhile (\<lambda>c. c \<noteq> sep) (i @ sep # r) = i"
  by (induction i) auto

lemma first_field_takeWhile: "first_field l = takeWhile (\<lambda>c. c \<noteq> TAB) l"
  by (simp add: first_field_def hd_py_split)

lemma line_id_first_field: "line_id l = py_strip (first_field l)"
  by (simp add: line_id_def first_field_def)

lemma first_field_ledger_line:
  assumes "ledger_line i l"
  shows "first_field l = i"
proof -
  from assms have t: "take (Suc (length i)) l = i @ [TAB]"
    by (simp add: ledger_line_def)
  have l: "l = i @ TAB # drop (Suc (length i)) l"
    using append_take_drop_id [of "Suc (length i)" l] unfolding t by simp
  have "TAB \<notin> set i"
    using assms by (simp add: ledger_line_def)
  then have "takeWhile (\<lambda>c. c \<noteq> TAB) (i @ TAB # drop (Suc (length i)) l) = i"
    by (rule takeWhile_before_sep)
  then show ?thesis
    using l by (simp add: first_field_takeWhile)
qed

lemma line_id_ledger_line:
  assumes "ledger_line i l"
  shows "line_id l = i"
  using assms first_field_ledger_line [OF assms]
  by (simp add: line_id_first_field ledger_line_def)

lemma py_lines_ledger_line:
  assumes "ledger_line i l"
  shows "py_lines l = [l]"
proof -
  have ne: "l \<noteq> []"
    using assms by (auto simp: ledger_line_def)
  show ?thesis
    using assms ne by (intro py_lines_one_line) (simp_all add: ledger_line_def)
qed

lemma file_ids_append_line:
  assumes "c = [] \<or> last c = LF" "ledger_line i l"
  shows "file_ids h (c @ l) = file_ids h c @ (if data_line h l then [i] else [])"
  using assms
  by (simp add: file_ids_def py_lines_append py_lines_ledger_line line_id_ledger_line)

lemma first_fields_append_line:
  assumes "c = [] \<or> last c = LF" "ledger_line i l"
  shows "map first_field (py_lines (c @ l)) = map first_field (py_lines c) @ [i]"
  using assms
  by (simp add: py_lines_append py_lines_ledger_line first_field_ledger_line)

lemma py_strip_length: "length (py_strip s) \<le> length (dropWhile py_isspace s)"
  unfolding py_strip_def
  using length_dropWhile_le [of py_isspace "rev (dropWhile py_isspace s)"] by simp

lemma clean_hd:
  assumes "py_strip i = i" "i \<noteq> []"
  shows "\<not> py_isspace (hd i)"
proof
  assume sp: "py_isspace (hd i)"
  from assms(2) obtain a r where i: "i = a # r"
    by (cases i) auto
  with sp have "dropWhile py_isspace i = dropWhile py_isspace r"
    by simp
  then have "length (dropWhile py_isspace i) \<le> length r"
    by (simp add: length_dropWhile_le)
  with py_strip_length [of i] have "length (py_strip i) \<le> length r"
    by simp
  with assms(1) i show False
    by simp
qed

lemma clean_last:
  assumes "py_strip i = i" "i \<noteq> []"
  shows "\<not> py_isspace (last i)"
proof
  assume sp: "py_isspace (last i)"
  have d: "dropWhile py_isspace i = i"
    using clean_hd [OF assms] by (simp add: dropWhile_eq_self_iff)
  have r: "rev i = last i # rev (butlast i)"
    using assms(2) by (metis append_butlast_last_id rev_eq_Cons_iff rev_rev_ident)
  have "dropWhile py_isspace (rev i) = dropWhile py_isspace (last i # rev (butlast i))"
    by (simp only: r)
  with sp have "dropWhile py_isspace (rev i) = dropWhile py_isspace (rev (butlast i))"
    by (simp only: dropWhile.simps if_True)
  then have "length (dropWhile py_isspace (rev i)) \<le> length (butlast i)"
    by (metis length_dropWhile_le length_rev)
  then have "length (py_strip i) \<le> length (butlast i)"
    by (simp add: py_strip_def d)
  then have "length i \<le> length (butlast i)"
    unfolding assms(1) .
  moreover have "length (butlast i) < length i"
    using assms(2) by (cases i rule: rev_cases) simp_all
  ultimately show False
    by arith
qed

lemma py_strip_clean_prefix:
  assumes "py_strip i = i" "i \<noteq> []"
  shows "py_strip (i @ r) = i @ rev (dropWhile py_isspace (rev r))"
proof -
  have 1: "dropWhile py_isspace (i @ r) = i @ r"
    using clean_hd [OF assms] assms(2) by (simp add: dropWhile_eq_self_iff)
  have 2: "dropWhile py_isspace (rev i) = rev i"
    using clean_last [OF assms] assms(2) by (simp add: dropWhile_eq_self_iff hd_rev)
  show ?thesis
    unfolding py_strip_def 1 by (simp add: dropWhile_append 2)
qed

lemma hd_strip_right:
  assumes "rev (dropWhile P (rev r)) \<noteq> []"
  shows "hd (rev (dropWhile P (rev r))) = hd r"
proof -
  have "rev (takeWhile P (rev r) @ dropWhile P (rev r)) = r"
    by simp
  then have "rev (dropWhile P (rev r)) @ rev (takeWhile P (rev r)) = r"
    by (simp only: rev_append)
  then show ?thesis
    using assms by (metis hd_append2)
qed

lemma first_field_strip:
  assumes ff: "first_field l = i" and clean: "py_strip i = i" and ne: "i \<noteq> []"
  shows "py_strip l = i @ rev (dropWhile py_isspace (rev (dropWhile (\<lambda>c. c \<noteq> TAB) l)))"
    and "first_field (py_strip l) = i"
proof -
  define r where "r = dropWhile (\<lambda>c. c \<noteq> TAB) l"
  define r' where "r' = rev (dropWhile py_isspace (rev r))"
  have i: "i = takeWhile (\<lambda>c. c \<noteq> TAB) l"
    using ff by (simp add: first_field_takeWhile)
  have l: "l = i @ r"
    unfolding i r_def by simp
  have tab: "TAB \<notin> set i"
    unfolding i by (auto dest: set_takeWhileD)
  have s: "py_strip l = i @ r'"
    unfolding r'_def using py_strip_clean_prefix [OF clean ne, of r] l by simp
  then show "py_strip l = i @ rev (dropWhile py_isspace (rev (dropWhile (\<lambda>c. c \<noteq> TAB) l)))"
    by (simp add: r'_def r_def)
  have "takeWhile (\<lambda>c. c \<noteq> TAB) (i @ r') = i"
  proof (cases "r' = []")
    case True
    then show ?thesis
      using tab by auto
  next
    case False
    then have "hd r' = hd r"
      unfolding r'_def by (rule hd_strip_right)
    moreover have "r \<noteq> []"
      using False by (auto simp: r'_def)
    then have "hd r = TAB"
      unfolding r_def using hd_dropWhile [of "\<lambda>c. c \<noteq> TAB" l] by simp
    ultimately obtain t where "r' = TAB # t"
      using False by (cases r') auto
    then show ?thesis
      using tab by (simp add: takeWhile_before_sep)
  qed
  then show "first_field (py_strip l) = i"
    by (simp add: first_field_takeWhile s)
qed

lemma line_with_id_is_row:
  assumes "first_field l = i" "py_strip i = i" "i \<noteq> []"
      and "case h of None \<Rightarrow> True | Some x \<Rightarrow> i \<noteq> first_field (py_strip x)"
  shows "data_line h l" and "line_id l = i"
proof -
  note s = first_field_strip [OF assms(1-3)]
  have "py_strip l \<noteq> []"
    using s(1) assms(3) by simp
  moreover have "py_strip l \<noteq> py_strip x" if "h = Some x" for x
    using s(2) assms(4) that by auto
  ultimately show "data_line h l"
    by (simp add: data_line_def split: option.splits)
  show "line_id l = i"
    using assms(1,2) by (simp add: line_id_first_field)
qed

lemma known_ids_loaded:
  "file_written_ids st f = Some S \<Longrightarrow> known_ids st f h = S"
  by (simp add: known_ids_def ids_of_def load_file_ids_def)

lemma file_ids_empty [simp]: "file_ids h [] = []"
  by (simp add: file_ids_def py_lines_def)

lemma ledger_inv_known:
  assumes "ledger_inv h f st"
  shows "set (file_ids h (content_of st f)) \<subseteq> known_ids st f h"
proof (cases "file_written_ids st f")
  case None
  then show ?thesis
    by (simp add: known_ids_first_reference content_of_def split: option.splits)
next
  case (Some S)
  with assms show ?thesis
    by (simp add: known_ids_loaded ledger_inv_def)
qed

lemma content_of_append_same:
  "content_of (snd (append_line_if_not_exists st f line i h)) f =
     (if i \<in> known_ids st f h then content_of st f else content_of st f @ line)"
  by (simp add: content_of_def files_append_same)

lemma content_of_append_other:
  "g \<noteq> f \<Longrightarrow> content_of (snd (append_line_if_not_exists st g line i h)) f = content_of st f"
  by (simp add: content_of_def files_append_other)

lemma ledger_inv_step:
  assumes inv: "ledger_inv h f st"
      and call: "ledger_call h f (g, line, i, h')"
  shows "ledger_inv h f (snd (append_line_if_not_exists st g line i h'))"
proof (cases "g = f")
  case False
  then have "content_of (snd (append_line_if_not_exists st g line i h')) f = content_of st f"
    and "file_written_ids (snd (append_line_if_not_exists st g line i h')) f =
         file_written_ids st f"
    by (simp_all add: content_of_append_other index_append_other not_sym)
  then show ?thesis
    using inv by (simp only: ledger_inv_def)
next
  case True
  with call have h': "h' = h" and ll: "ledger_line i line"
    and hdr: "case h of None \<Rightarrow> True | Some x \<Rightarrow> i \<noteq> first_field (py_strip x)"
    by (simp_all add: ledger_call_def)
  let ?st' = "snd (append_line_if_not_exists st f line i h)"
  note sub = ledger_inv_known [OF inv]
  have idx: "file_written_ids ?st' f = Some (insert i (known_ids st f h))"
    by (rule index_append_same)
  have wf: "content_of st f = [] \<or> last (content_of st f) = LF"
    and dist: "distinct (map first_field (py_lines (content_of st f)))"
    using inv by (simp_all add: ledger_inv_def)
  have "ledger_inv h f ?st'"
  proof (cases "i \<in> known_ids st f h")
    case True
    then have "content_of ?st' f = content_of st f"
      by (simp add: content_of_append_same)
    then show ?thesis
      using wf dist sub by (auto simp: ledger_inv_def idx)
  next
    case False
    then have c: "content_of ?st' f = content_of st f @ line"
      by (simp add: content_of_append_same)
    have ne: "line \<noteq> []" and lf: "last line = LF"
      and clean: "py_strip i = i" and nonempty: "i \<noteq> []"
      using ll by (auto simp: ledger_line_def)
    have ids: "file_ids h (content_of st f @ line) =
                 file_ids h (content_of st f) @ (if data_line h line then [i] else [])"
      using wf ll by (rule file_ids_append_line)
    have fields: "map first_field (py_lines (content_of st f @ line)) =
                    map first_field (py_lines (content_of st f)) @ [i]"
      using wf ll by (rule first_fields_append_line)
    have new: "i \<notin> set (map first_field (py_lines (content_of st f)))"
    proof
      assume "i \<in> set (map first_field (py_lines (content_of st f)))"
      then obtain l where l: "l \<in> set (py_lines (content_of st f))" and f: "first_field l = i"
        by auto
      from line_with_id_is_row [OF f clean nonempty hdr]
      have "data_line h l" and "line_id l = i" .
      with l have "i \<in> set (file_ids h (content_of st f))"
        by (auto simp: file_ids_def)
      with sub False show False
        by blast
    qed
    have 1: "content_of ?st' f = [] \<or> last (content_of ?st' f) = LF"
      using ne lf by (simp add: c)
    have 2: "distinct (map first_field (py_lines (content_of ?st' f)))"
      using dist new by (simp only: c fields) simp
    have 3: "set (file_ids h (content_of ?st' f)) \<subseteq> insert i (known_ids st f h)"
      using sub by (auto simp: c ids)
    show ?thesis
      using 1 2 3 by (simp add: ledger_inv_def idx)
  qed
  then show ?thesis
    using True h' by simp
qed

lemma ledger_inv_calls:
  assumes "ledger_inv h f st"
      and "\<forall>c \<in> set calls. ledger_call h f c"
  shows "ledger_inv h f (append_calls st calls)"
  using assms
proof (induction calls arbitrary: st)
  case Nil
  then show ?case by simp
next
  case (Cons c calls)
  obtain g line i h' where c: "c = (g, line, i, h')"
    by (cases c) auto
  have "ledger_inv h f (snd (append_line_if_not_exists st g line i h'))"
    using Cons.prems c by (intro ledger_inv_step) auto
  then show ?case
    using Cons.IH Cons.prems(2) c by simp
qed

lemma index_grows:
  assumes "file_written_ids st f = Some S"
  shows "\<exists>S'. file_written_ids (append_calls st calls) f = Some S' \<and> S \<subseteq> S'"
  using assms
proof (induction calls arbitrary: st S)
  case Nil
  then show ?case by simp
next
  case (Cons c calls)
  obtain g line i h' where c: "c = (g, line, i, h')"
    by (cases c) auto
  have "\<exists>T. file_written_ids (snd (append_line_if_not_exists st g line i h')) f = Some T \<and> S \<subseteq> T"
  proof (cases "g = f")
    case True
    then show ?thesis
      using Cons.prems by (auto simp: index_append_same known_ids_loaded)
  next
    case False
    then show ?thesis
      using Cons.prems by (simp add: index_append_other)
  qed
  then obtain T where T: "file_written_ids (snd (append_line_if_not_exists st g line i h')) f = Some T"
    and ST: "S \<subseteq> T"
    by blast
  from Cons.IH [OF T] obtain S' where
    "file_written_ids (append_calls (snd (append_line_if_not_exists st g line i h')) calls) f = Some S'"
    "T \<subseteq> S'"
    by blast
  with ST show ?case
    by (auto simp: c)
qed

lemma append_known_noop:
  assumes "i \<in> known_ids st f h"
  shows "fst (append_line_if_not_exists st f line i h) = False"
    and "files (snd (append_line_if_not_exists st f line i h)) = files st"
  using assms by (simp_all add: append_line_eq)

lemma append_commit_later_noop:
  assumes "fst (append_line_if_not_exists st f line i h)"
      and st': "st' = append_calls (snd (append_line_if_not_exists st f line i h)) later"
  shows "append_line_if_not_exists st' f line' i h' = (False, print (AlreadyExists i f) st')"
proof -
  have "file_written_ids (snd (append_line_if_not_exists st f line i h)) f =
          Some (insert i (known_ids st f h))"
    by (rule index_append_same)
  from index_grows [OF this, of later] obtain S' where
    S': "file_written_ids st' f = Some S'" and i: "i \<in> S'"
    unfolding st' by blast
  have l: "load_file_ids st' f h' = st'"
    using S' by (simp add: load_file_ids_def)
  show ?thesis
    using i by (simp add: append_line_eq known_ids_loaded [OF S'] l)
qed

lemma ledger_inv_absent:
  "files st f = None \<Longrightarrow> file_written_ids st f = None \<Longrightarrow> ledger_inv h f st"
  by (simp add: ledger_inv_def content_of_def py_lines_def)

lemma ledger_inv_rerun:
  "ledger_inv (Some summary_header) ''clades/Clade_designations.tab'' rerun_state"
proof -
  have "map first_field (py_lines (summary_header @ [LF] @ ''S1'' @ [TAB] @ ''Clade II'' @ [LF])) =
          [''Isolate_ID'', ''S1'']"
    by (simp add: py_lines_def summary_header_def first_field_def)
  then show ?thesis
    by (simp add: ledger_inv_def rerun_state_def content_of_def)
qed

text \<open>
  Claim C1, as stated: after any sequence of calls each isolate identifier is the first
  tab-delimited field of at most one row. The two calls \<open>tab_calls\<close> are those the
  orchestrator makes for the isolates \<^verbatim>\<open>"A<TAB>B"\<close> and \<^verbatim>\<open>"A"\<close> on an empty directory: both
  commit, and \<^verbatim>\<open>"A"\<close> is the first tab-delimited field of both rows of the file.
\<close>

theorem tab_in_identifier_gives_two_rows:
  "files (append_calls st_empty tab_calls) ''clades/Clade_I.reads.tab'' =
     Some (''A'' @ [TAB] @ ''B'' @ [TAB] @ ''r1'' @ [TAB] @ ''r2'' @ [LF] @
           ''A'' @ [TAB] @ ''r3'' @ [TAB] @ ''r4'' @ [LF]) \<and>
   map first_field
     (py_lines (''A'' @ [TAB] @ ''B'' @ [TAB] @ ''r1'' @ [TAB] @ ''r2'' @ [LF] @
                ''A'' @ [TAB] @ ''r3'' @ [TAB] @ ''r4'' @ [LF])) = [''A'', ''A''] \<and>
   \<not> distinct (map first_field
     (py_lines (''A'' @ [TAB] @ ''B'' @ [TAB] @ ''r1'' @ [TAB] @ ''r2'' @ [LF] @
                ''A'' @ [TAB] @ ''r3'' @ [TAB] @ ''r4'' @ [LF])))"
proof -
  have k1: "known_ids st_empty ''clades/Clade_I.reads.tab'' None = {}"
    by simp
  let ?st1 = "snd (append_line_if_not_exists st_empty ''clades/Clade_I.reads.tab''
                (''A'' @ [TAB] @ ''B'' @ [TAB] @ ''r1'' @ [TAB] @ ''r2'' @ [LF])
                (''A'' @ [TAB] @ ''B'') None)"
  have i1: "file_written_ids ?st1 ''clades/Clade_I.reads.tab'' = Some {''A'' @ [TAB] @ ''B''}"
    by (simp only: index_append_same k1)
  have k2: "known_ids ?st1 ''clades/Clade_I.reads.tab'' None = {''A'' @ [TAB] @ ''B''}"
    by (rule known_ids_loaded [OF i1])
  have c1: "content_of ?st1 ''clades/Clade_I.reads.tab'' =
              ''A'' @ [TAB] @ ''B'' @ [TAB] @ ''r1'' @ [TAB] @ ''r2'' @ [LF]"
    by (simp only: content_of_append_same k1) simp
  have n: "''A'' \<notin> {''A'' @ [TAB] @ ''B''}"
    by simp
  have "files (snd (append_line_if_not_exists ?st1 ''clades/Clade_I.reads.tab''
                (''A'' @ [TAB] @ ''r3'' @ [TAB] @ ''r4'' @ [LF]) ''A'' None))
          ''clades/Clade_I.reads.tab'' =
        Some ((''A'' @ [TAB] @ ''B'' @ [TAB] @ ''r1'' @ [TAB] @ ''r2'' @ [LF]) @
              ''A'' @ [TAB] @ ''r3'' @ [TAB] @ ''r4'' @ [LF])"
    using n by (simp only: files_append_same k2 c1 if_False)
  then have 1: "files (append_calls st_empty tab_calls) ''clades/Clade_I.reads.tab'' =
     Some (''A'' @ [TAB] @ ''B'' @ [TAB] @ ''r1'' @ [TAB] @ ''r2'' @ [LF] @
           ''A'' @ [TAB] @ ''r3'' @ [TAB] @ ''r4'' @ [LF])"
    by (simp add: tab_calls_def)
  have 2: "map first_field
     (py_lines (''A'' @ [TAB] @ ''B'' @ [TAB] @ ''r1'' @ [TAB] @ ''r2'' @ [LF] @
                ''A'' @ [TAB] @ ''r3'' @ [TAB] @ ''r4'' @ [LF])) = [''A'', ''A'']"
    by (simp add: py_lines_def first_field_def)
  have 3: "\<not> distinct (map first_field
     (py_lines (''A'' @ [TAB] @ ''B'' @ [TAB] @ ''r1'' @ [TAB] @ ''r2'' @ [LF] @
                ''A'' @ [TAB] @ ''r3'' @ [TAB] @ ''r4'' @ [LF])))"
    by (simp only: 2) simp
  from 1 2 3 show ?thesis by blast
qed

text \<open>
  Claim C1, amended. Take a ledger file that is absent, or whose text is empty or ends
  with a line feed and has no two lines with the same first tab-delimited field, and
  whose membership set, if it is already built, holds the stripped first field of every
  line that is neither blank nor the header (\<open>ledger_inv\<close>: so it is at the start of a
  run on a fresh directory). After any sequence of calls in which every call on that file
  passes the same header, an identifier that is not empty, holds no tab and no leading or
  trailing whitespace and is not the first tab-delimited field of the stripped header,
  and a line made of the identifier, a tab, the other fields and one final line feed,
  with no other line feed and no carriage return (\<open>ledger_call\<close>, \<open>ledger_line\<close>), no two
  lines of the file, header and blank lines included, have the same first tab-delimited
  field. For every call, whatever its arguments: a call whose identifier is in the
  membership set of the file returns False and writes nothing, and a committing call
  records the identifier, so that after any further calls a call with the same
  identifier on the same file returns False and only prints the notice.
\<close>

theorem each_identifier_in_one_row:
  "(ledger_inv h f st \<and> (\<forall>c \<in> set calls. ledger_call h f c) \<longrightarrow>
      distinct (map first_field (py_lines (content_of (append_calls st calls) f)))) \<and>
   (i \<in> known_ids st f h \<longrightarrow>
      fst (append_line_if_not_exists st f line i h) = False \<and>
      files (snd (append_line_if_not_exists st f line i h)) = files st) \<and>
   (fst (append_line_if_not_exists st f line i h) \<longrightarrow>
      i \<in> ids_of (snd (append_line_if_not_exists st f line i h)) f \<and>
      append_line_if_not_exists
        (append_calls (snd (append_line_if_not_exists st f line i h)) later) f line' i h'' =
        (False, print (AlreadyExists i f)
                  (append_calls (snd (append_line_if_not_exists st f line i h)) later)))"
proof -
  have 1: "distinct (map first_field (py_lines (content_of (append_calls st calls) f)))"
    if "ledger_inv h f st" "\<forall>c \<in> set calls. ledger_call h f c"
    using ledger_inv_calls [OF that] by (simp add: ledger_inv_def)
  have 2: "fst (append_line_if_not_exists st f line i h) = False \<and>
           files (snd (append_line_if_not_exists st f line i h)) = files st"
    if "i \<in> known_ids st f h"
    using append_known_noop [OF that] by simp
  have 3: "i \<in> ids_of (snd (append_line_if_not_exists st f line i h)) f"
    by (simp add: ids_of_def index_append_same)
  have 4: "append_line_if_not_exists
        (append_calls (snd (append_line_if_not_exists st f line i h)) later) f line' i h'' =
        (False, print (AlreadyExists i f)
                  (append_calls (snd (append_line_if_not_exists st f line i h)) later))"
    if "fst (append_line_if_not_exists st f line i h)"
    using that by (rule append_commit_later_noop) simp
  from 1 2 3 4 show ?thesis by blast
qed

theorem each_identifier_in_one_row_witness:
  "ledger_inv None ''clades/Clade_I.reads.tab'' st_empty \<and>
   ledger_line ''S1'' (''S1'' @ [TAB] @ ''r1'' @ [TAB] @ ''r2'' @ [LF]) \<and>
   ledger_line ''S2'' (''S2'' @ [TAB] @ ''r3'' @ [TAB] @ ''r4'' @ [LF]) \<and>
   distinct (map first_field (py_lines
     (content_of (append_calls st_empty plain_calls) ''clades/Clade_I.reads.tab''))) \<and>
   ledger_inv (Some summary_header) ''clades/Clade_designations.tab'' rerun_state \<and>
   ledger_line ''S1'' (''S1'' @ [TAB] @ ''Clade II'' @ [LF]) \<and>
   ledger_line ''S2'' (''S2'' @ [TAB] @ ''Clade I'' @ [LF]) \<and>
   first_field (py_strip summary_header) = ''Isolate_ID'' \<and>
   distinct (map first_field (py_lines
     (content_of (append_calls rerun_state summary_calls) ''clades/Clade_designations.tab''))) \<and>
   fst (append_line_if_not_exists st_empty ''clades/Clade_I.reads.tab''
          (''S1'' @ [TAB] @ ''r1'' @ [TAB] @ ''r2'' @ [LF]) ''S1'' None) \<and>
   fst (append_line_if_not_exists
          (append_calls
             (snd (append_line_if_not_exists st_empty ''clades/Clade_I.reads.tab''
                     (''S1'' @ [TAB] @ ''r1'' @ [TAB] @ ''r2'' @ [LF]) ''S1'' None))
             plain_calls)
          ''clades/Clade_I.reads.tab'' (''S1'' @ [TAB] @ ''r1'' @ [TAB] @ ''r2'' @ [LF])
          ''S1'' None) = False \<and>
   ''S1'' \<in> known_ids rerun_state ''clades/Clade_designations.tab'' (Some summary_header) \<and>
   fst (append_line_if_not_exists rerun_state ''clades/Clade_designations.tab''
          (''S1'' @ [TAB] @ ''Clade II'' @ [LF]) ''S1'' (Some summary_header)) = False"
proof -
  let ?f = "''clades/Clade_I.reads.tab''"
  let ?sf = "''clades/Clade_designations.tab''"
  let ?l1 = "''S1'' @ [TAB] @ ''r1'' @ [TAB] @ ''r2'' @ [LF]"
  let ?l2 = "''S2'' @ [TAB] @ ''r3'' @ [TAB] @ ''r4'' @ [LF]"
  have inv: "ledger_inv None ?f st_empty"
    by (rule ledger_inv_absent) (simp_all add: st_empty_def)
  have ll1: "ledger_line ''S1'' ?l1"
    by (simp add: ledger_line_def py_strip_def py_isspace_def)
  have ll2: "ledger_line ''S2'' ?l2"
    by (simp add: ledger_line_def py_strip_def py_isspace_def)
  have calls: "\<forall>c \<in> set plain_calls. ledger_call None ?f c"
    using ll1 ll2 by (simp add: plain_calls_def ledger_call_def)
  have sinv: "ledger_inv (Some summary_header) ?sf rerun_state"
    by (rule ledger_inv_rerun)
  have sl1: "ledger_line ''S1'' (''S1'' @ [TAB] @ ''Clade II'' @ [LF])"
    by (simp add: ledger_line_def py_strip_def py_isspace_def)
  have sl2: "ledger_line ''S2'' (''S2'' @ [TAB] @ ''Clade I'' @ [LF])"
    by (simp add: ledger_line_def py_strip_def py_isspace_def)
  have hf: "first_field (py_strip summary_header) = ''Isolate_ID''"
    by (simp add: summary_header_def py_strip_def py_isspace_def first_field_def)
  have scalls: "\<forall>c \<in> set summary_calls. ledger_call (Some summary_header) ?sf c"
    using sl1 sl2 by (simp add: summary_calls_def ledger_call_def hf)
  have commit: "fst (append_line_if_not_exists st_empty ?f ?l1 ''S1'' None)"
    by (simp add: append_line_eq)
  note t = each_identifier_in_one_row
             [of None ?f st_empty plain_calls "''S1''" ?l1 plain_calls ?l1 None]
  from t inv calls
  have d: "distinct (map first_field (py_lines (content_of (append_calls st_empty plain_calls) ?f)))"
    by blast
  from t commit have later:
    "append_line_if_not_exists
       (append_calls (snd (append_line_if_not_exists st_empty ?f ?l1 ''S1'' None)) plain_calls)
       ?f ?l1 ''S1'' None =
     (False, print (AlreadyExists ''S1'' ?f)
        (append_calls (snd (append_line_if_not_exists st_empty ?f ?l1 ''S1'' None)) plain_calls))"
    by blast
  have n: "file_written_ids rerun_state ?sf = None"
    by (simp add: rerun_state_def)
  have c: "files rerun_state ?sf =
             Some (summary_header @ [LF] @ ''S1'' @ [TAB] @ ''Clade II'' @ [LF])"
    by (simp add: rerun_state_def)
  have k: "''S1'' \<in> known_ids rerun_state ?sf (Some summary_header)"
    by (simp only: known_ids_first_reference [OF n] c option.case file_ids_rerun) simp
  note u = each_identifier_in_one_row
             [of "Some summary_header" ?sf rerun_state summary_calls
                 "''S1''" "''S1'' @ [TAB] @ ''Clade II'' @ [LF]"]
  from u sinv scalls
  have sd: "distinct (map first_field (py_lines
              (content_of (append_calls rerun_state summary_calls) ?sf)))"
    by blast
  from u k have no: "fst (append_line_if_not_exists rerun_state ?sf
          (''S1'' @ [TAB] @ ''Clade II'' @ [LF]) ''S1'' (Some summary_header)) = False"
    by blast
  have later': "fst (append_line_if_not_exists
       (append_calls (snd (append_line_if_not_exists st_empty ?f ?l1 ''S1'' None)) plain_calls)
       ?f ?l1 ''S1'' None) = False"
    by (simp only: later fst_conv)
  from inv ll1 ll2 d sinv sl1 sl2 hf sd commit later' k no show ?thesis
    by (intro conjI)
qed

end
